theory Spec2Isabelle
  imports Main "HOL-Library.Char_ord" "HOL-Library.List_Lexorder"
begin

section \<open>Multi-file routes of the spreadsheet API\<close>

text \<open>
  This theory embeds \<^verbatim>\<open>apps/api/app/api/routes/multifile.py\<close>: the helper functions
  \<^verbatim>\<open>validate_files_access\<close> and \<^verbatim>\<open>load_file_collection\<close> and the four endpoints
  \<^verbatim>\<open>analyze_multifile\<close>, \<^verbatim>\<open>join_files\<close>, \<^verbatim>\<open>merge_files\<close> and
  \<^verbatim>\<open>cross_file_reference\<close>.

  Conventions.
  \<^item> A Python \<^verbatim>\<open>str\<close> is a \<^typ>\<open>string\<close> holding its UTF-8 bytes; the Chinese literals
    of the source are the byte lists of section \<open>String literals\<close>, each with an English gloss.
  \<^item> A raised exception is a value of type \<open>exn\<close>; a function that may raise returns
    \<open>exn + 'a\<close> with \<open>Inl\<close> the exception.
  \<^item> The calls that leave the module (database query, table loading, engine execution) are
    recorded in a list of events returned beside the result, in call order.
  \<^item> A Python \<^verbatim>\<open>dict\<close> whose iteration order matters is an association list in insertion
    order; a \<^verbatim>\<open>dict\<close> that is only looked up is a map.
  \<^item> \<^verbatim>\<open>logger.error\<close> calls are not modelled.
\<close>

subsection \<open>String literals\<close>

definition MSG_NO_ACCESS :: string where
  \<comment> \<open>no permission to access file: \<close>
  "MSG_NO_ACCESS = [CHR 0xE6, CHR 0x97, CHR 0xA0, CHR 0xE6, CHR 0x9D, CHR 0x83, CHR 0xE8,
     CHR 0xAE, CHR 0xBF, CHR 0xE9, CHR 0x97, CHR 0xAE, CHR 0xE6, CHR 0x96, CHR 0x87,
     CHR 0xE4, CHR 0xBB, CHR 0xB6] @ '': ''"

definition MSG_BAD_FILE_ID :: string where
  \<comment> \<open>invalid file_id format: \<close>
  "MSG_BAD_FILE_ID = [CHR 0xE6, CHR 0x97, CHR 0xA0, CHR 0xE6, CHR 0x95, CHR 0x88, CHR 0xE7,
     CHR 0x9A, CHR 0x84] @ '' file_id '' @ [CHR 0xE6, CHR 0xA0, CHR 0xBC, CHR 0xE5,
     CHR 0xBC, CHR 0x8F] @ '': ''"

definition MSG_ANALYZE_FAILED :: string where
  \<comment> \<open>analysis failed: \<close>
  "MSG_ANALYZE_FAILED = [CHR 0xE5, CHR 0x88, CHR 0x86, CHR 0xE6, CHR 0x9E, CHR 0x90,
     CHR 0xE5, CHR 0xA4, CHR 0xB1, CHR 0xE8, CHR 0xB4, CHR 0xA5] @ '': ''"

definition SUGGEST_HEAD :: string where
  \<comment> \<open>file, opening quote\<close>
  "SUGGEST_HEAD = [CHR 0xE6, CHR 0x96, CHR 0x87, CHR 0xE4, CHR 0xBB, CHR 0xB6] @ '' '' @
     [CHR 0x27]"

definition SUGGEST_MID :: string where
  \<comment> \<open>closing quote, and, opening quote\<close>
  "SUGGEST_MID = [CHR 0x27] @ '' '' @ [CHR 0xE5, CHR 0x92, CHR 0x8C] @ '' '' @ [CHR 0x27]"

definition SUGGEST_TAIL :: string where
  \<comment> \<open>closing quote, can be related through common column names\<close>
  "SUGGEST_TAIL = [CHR 0x27] @ '' '' @ [CHR 0xE5, CHR 0x8F, CHR 0xAF, CHR 0xE4, CHR 0xBB,
     CHR 0xA5, CHR 0xE9, CHR 0x80, CHR 0x9A, CHR 0xE8, CHR 0xBF, CHR 0x87, CHR 0xE5,
     CHR 0x85, CHR 0xB1, CHR 0xE5, CHR 0x90, CHR 0x8C, CHR 0xE5, CHR 0x88, CHR 0x97,
     CHR 0xE5, CHR 0x90, CHR 0x8D, CHR 0xE8, CHR 0xBF, CHR 0x9B, CHR 0xE8, CHR 0xA1,
     CHR 0x8C, CHR 0xE5, CHR 0x85, CHR 0xB3, CHR 0xE8, CHR 0x81, CHR 0x94]"

definition SUGGEST_FALLBACK :: string where
  \<comment> \<open>no obvious related column found, specify the join conditions by hand\<close>
  "SUGGEST_FALLBACK = [CHR 0xE6, CHR 0x9C, CHR 0xAA, CHR 0xE5, CHR 0x8F, CHR 0x91,
     CHR 0xE7, CHR 0x8E, CHR 0xB0, CHR 0xE6, CHR 0x98, CHR 0x8E, CHR 0xE6, CHR 0x98,
     CHR 0xBE, CHR 0xE7, CHR 0x9A, CHR 0x84, CHR 0xE5, CHR 0x85, CHR 0xB3, CHR 0xE8,
     CHR 0x81, CHR 0x94, CHR 0xE5, CHR 0x88, CHR 0x97, CHR 0xEF, CHR 0xBC, CHR 0x8C,
     CHR 0xE5, CHR 0xBB, CHR 0xBA, CHR 0xE8, CHR 0xAE, CHR 0xAE, CHR 0xE6, CHR 0x89,
     CHR 0x8B, CHR 0xE5, CHR 0x8A, CHR 0xA8, CHR 0xE6, CHR 0x8C, CHR 0x87, CHR 0xE5,
     CHR 0xAE, CHR 0x9A, CHR 0xE8, CHR 0xBF, CHR 0x9E, CHR 0xE6, CHR 0x8E, CHR 0xA5,
     CHR 0xE6, CHR 0x9D, CHR 0xA1, CHR 0xE4, CHR 0xBB, CHR 0xB6]"

definition DESC_JOIN :: string where
  \<comment> \<open>join \<close>
  "DESC_JOIN = [CHR 0xE8, CHR 0xBF, CHR 0x9E, CHR 0xE6, CHR 0x8E, CHR 0xA5] @ '' ''"

definition DESC_AND :: string where
  \<comment> \<open> and \<close>
  "DESC_AND = '' '' @ [CHR 0xE5, CHR 0x92, CHR 0x8C] @ '' ''"

definition MSG_JOIN_FAILED :: string where
  \<comment> \<open>join operation failed\<close>
  "MSG_JOIN_FAILED = [CHR 0xE8, CHR 0xBF, CHR 0x9E, CHR 0xE6, CHR 0x8E, CHR 0xA5, CHR 0xE6,
     CHR 0x93, CHR 0x8D, CHR 0xE4, CHR 0xBD, CHR 0x9C, CHR 0xE5, CHR 0xA4, CHR 0xB1,
     CHR 0xE8, CHR 0xB4, CHR 0xA5]"

definition ERR_LENGTH_MISMATCH :: string where
  \<comment> \<open>file_ids and tables must have the same length\<close>
  "ERR_LENGTH_MISMATCH = ''file_ids '' @ [CHR 0xE5, CHR 0x92, CHR 0x8C] @ '' tables '' @
     [CHR 0xE9, CHR 0x95, CHR 0xBF, CHR 0xE5, CHR 0xBA, CHR 0xA6, CHR 0xE5, CHR 0xBF,
     CHR 0x85, CHR 0xE9, CHR 0xA1, CHR 0xBB, CHR 0xE7, CHR 0x9B, CHR 0xB8, CHR 0xE5,
     CHR 0x90, CHR 0x8C]"

definition ERR_MIN_FILES :: string where
  \<comment> \<open>at least 2 files are needed for a merge\<close>
  "ERR_MIN_FILES = [CHR 0xE8, CHR 0x87, CHR 0xB3, CHR 0xE5, CHR 0xB0, CHR 0x91, CHR 0xE9,
     CHR 0x9C, CHR 0x80, CHR 0xE8, CHR 0xA6, CHR 0x81] @ ''2'' @ [CHR 0xE4, CHR 0xB8,
     CHR 0xAA, CHR 0xE6, CHR 0x96, CHR 0x87, CHR 0xE4, CHR 0xBB, CHR 0xB6, CHR 0xE8,
     CHR 0xBF, CHR 0x9B, CHR 0xE8, CHR 0xA1, CHR 0x8C, CHR 0xE5, CHR 0x90, CHR 0x88,
     CHR 0xE5, CHR 0xB9, CHR 0xB6]"

definition MSG_PARAM_ERROR :: string where
  \<comment> \<open>parameter error\<close>
  "MSG_PARAM_ERROR = [CHR 0xE5, CHR 0x8F, CHR 0x82, CHR 0xE6, CHR 0x95, CHR 0xB0, CHR 0xE9,
     CHR 0x94, CHR 0x99, CHR 0xE8, CHR 0xAF, CHR 0xAF]"

definition DESC_MERGE :: string where
  \<comment> \<open>merge \<close>
  "DESC_MERGE = [CHR 0xE5, CHR 0x90, CHR 0x88, CHR 0xE5, CHR 0xB9, CHR 0xB6] @ '' ''"

definition DESC_FILES :: string where
  \<comment> \<open> files\<close>
  "DESC_FILES = '' '' @ [CHR 0xE4, CHR 0xB8, CHR 0xAA, CHR 0xE6, CHR 0x96, CHR 0x87,
     CHR 0xE4, CHR 0xBB, CHR 0xB6]"

definition MSG_MERGE_FAILED :: string where
  \<comment> \<open>merge operation failed\<close>
  "MSG_MERGE_FAILED = [CHR 0xE5, CHR 0x90, CHR 0x88, CHR 0xE5, CHR 0xB9, CHR 0xB6,
     CHR 0xE6, CHR 0x93, CHR 0x8D, CHR 0xE4, CHR 0xBD, CHR 0x9C, CHR 0xE5, CHR 0xA4,
     CHR 0xB1, CHR 0xE8, CHR 0xB4, CHR 0xA5]"

definition DESC_FROM :: string where
  \<comment> \<open>from \<close>
  "DESC_FROM = [CHR 0xE4, CHR 0xBB, CHR 0x8E] @ '' ''"

definition DESC_REFER :: string where
  \<comment> \<open> reference \<close>
  "DESC_REFER = '' '' @ [CHR 0xE5, CHR 0xBC, CHR 0x95, CHR 0xE7, CHR 0x94, CHR 0xA8] @
     '' ''"

definition DESC_TO :: string where
  \<comment> \<open> to \<close>
  "DESC_TO = '' '' @ [CHR 0xE5, CHR 0x88, CHR 0xB0] @ '' ''"

definition MSG_REFERENCE_FAILED :: string where
  \<comment> \<open>reference operation failed\<close>
  "MSG_REFERENCE_FAILED = [CHR 0xE5, CHR 0xBC, CHR 0x95, CHR 0xE7, CHR 0x94, CHR 0xA8,
     CHR 0xE6, CHR 0x93, CHR 0x8D, CHR 0xE4, CHR 0xBD, CHR 0x9C, CHR 0xE5, CHR 0xA4,
     CHR 0xB1, CHR 0xE8, CHR 0xB4, CHR 0xA5]"

subsection \<open>Python string helpers\<close>

text \<open>\<^verbatim>\<open>sep.join(xs)\<close>.\<close>

fun join :: "string \<Rightarrow> string list \<Rightarrow> string" where
  "join sep [] = []"
| "join sep [x] = x"
| "join sep (x # y # ys) = x @ sep @ join sep (y # ys)"

text \<open>\<^verbatim>\<open>str(n)\<close> for a non-negative integer: its decimal digits.\<close>

definition digit :: "nat \<Rightarrow> char" where
  "digit d = char_of (48 + d)"

fun str_nat :: "nat \<Rightarrow> string" where
  "str_nat n = (if n < 10 then [digit n] else str_nat (n div 10) @ [digit (n mod 10)])"

declare str_nat.simps [simp del]

subsection \<open>Exceptions, identifiers and stored files\<close>

text \<open>
  \<open>HTTPException status detail\<close> is FastAPI's exception; \<open>PyError name\<close> stands for any other
  Python exception, named by its class or message.
\<close>

datatype exn = HTTPException (status_code: nat) (detail: string) | PyError string

text \<open>A \<^verbatim>\<open>UUID\<close> is represented by its canonical text \<^verbatim>\<open>str(u)\<close>.\<close>

type_synonym uuid = string

text \<open>
  The ORM class \<^verbatim>\<open>File\<close> (\<^verbatim>\<open>app.models.file\<close>) is imported by the module; the three
  attributes the module reads are \<^verbatim>\<open>id\<close>, \<^verbatim>\<open>user_id\<close> (read through \<^verbatim>\<open>str\<close>) and
  \<^verbatim>\<open>filename\<close>.
\<close>

record db_file =
  db_id :: uuid
  db_user_id :: string
  db_filename :: string

subsection \<open>File collection\<close>

text \<open>
  Modelled from the spec: the class \<^verbatim>\<open>FileCollection\<close> and the file and table objects it
  returns (\<^verbatim>\<open>app.engine.models\<close>) are imported, not defined, by the module. The spec
  describes a request-scoped aggregate of loaded files that exposes the schema lookup by
  file, the file lookup by id, the sheet lookup by (file, sheet name) and the column-name
  listing per sheet, a schema being, per file and per sheet, an ordered mapping from column
  key to display column name. A table is that ordered mapping, a file its display name and
  its sheets in order, a collection the files in insertion order under their ids.
\<close>

type_synonym table = "(string \<times> string) list"

record excel_file =
  xf_filename :: string
  xf_sheets :: "(string \<times> table) list"

type_synonym file_collection = "(string \<times> excel_file) list"

definition get_schemas :: "file_collection \<Rightarrow> (string \<times> (string \<times> table) list) list" where
  "get_schemas fc = map (\<lambda>(fid, file). (fid, xf_sheets file)) fc"

definition get_file :: "file_collection \<Rightarrow> string \<Rightarrow> excel_file option" where
  "get_file fc fid = map_of fc fid"

definition get_sheet_names :: "excel_file \<Rightarrow> string list" where
  "get_sheet_names file = map fst (xf_sheets file)"

definition get_sheet :: "excel_file \<Rightarrow> string \<Rightarrow> table option" where
  "get_sheet file sheet_name = map_of (xf_sheets file) sheet_name"

definition get_columns :: "table \<Rightarrow> string list" where
  "get_columns t = map snd t"

subsection \<open>Engine operations and results\<close>

text \<open>
  The operation classes (\<^verbatim>\<open>app.engine.models\<close>) are imported; the module builds them with
  keyword arguments, kept here in the order the module writes them. The \<^verbatim>\<open>output\<close>
  argument is written either as the string \<^verbatim>\<open>"in_place"\<close> or as the dictionary
  \<^verbatim>\<open>{"type": "new_sheet", "name": n}\<close>.
\<close>

datatype output_spec = InPlace | NewSheet string

datatype join_condition =
  JoinCondition (cond_left_column: string) (cond_right_column: string) (cond_operator: string)

datatype operation =
    JoinOperation
      (jo_left_file_id: string) (jo_left_table: string) (jo_right_file_id: string)
      (jo_right_table: string) (jo_join_type: string) (jo_conditions: "join_condition list")
      (jo_output: output_spec) (jo_description: string)
  | MergeOperation
      (mo_file_ids: "string list") (mo_tables: "string list") (mo_merge_type: string)
      (mo_output: output_spec) (mo_description: string)
  | CrossFileReferenceOperation
      (xo_source_file_id: string) (xo_source_table: string) (xo_source_column: string)
      (xo_target_file_id: string) (xo_target_table: string) (xo_target_column: string)
      (xo_reference_type: string) (xo_output: output_spec) (xo_description: string)

text \<open>
  A sheet of the engine's result: the module reads \<^verbatim>\<open>len(result_data)\<close> and, when the
  object has the attribute, \<^verbatim>\<open>result_data.columns\<close>.
\<close>

datatype result_data = ResultData (rd_len: nat) (rd_columns: "string list option")

record execution_result =
  errors :: "string list"
  new_sheets :: "string \<rightharpoonup> (string \<rightharpoonup> result_data)"
  excel_formulas :: "string list"

text \<open>
  Modelled from the spec: \<^verbatim>\<open>has_errors\<close> is a method of the engine's result class, which is
  imported; the spec gives \<open>hasErrors() \<Leftrightarrow> errors non-empty\<close>.
\<close>

definition has_errors :: "execution_result \<Rightarrow> bool" where
  "has_errors result = (errors result \<noteq> [])"

subsection \<open>Collaborators\<close>

text \<open>
  What the module calls and does not define, taken as parameters:
  \<^item> \<open>UUID\<close>: the constructor \<^verbatim>\<open>uuid.UUID(fid)\<close>; \<open>Inl m\<close> is \<^verbatim>\<open>ValueError(m)\<close>;
  \<^item> \<open>get_files_by_ids_from_db\<close>, \<open>load_tables_from_files\<close> (\<^verbatim>\<open>app.services.excel\<close>);
  \<^item> \<open>execute\<close>: \<^verbatim>\<open>Executor(file_collection).execute(operations)\<close>;
  \<^item> \<open>str_exn\<close>: \<^verbatim>\<open>str(e)\<close> of a caught exception;
  \<^item> \<open>set_iter\<close>: the order in which a \<^verbatim>\<open>for\<close> loop visits a Python \<^verbatim>\<open>set\<close>, which the
    language leaves open.
\<close>

record world =
  UUID :: "string \<Rightarrow> string + uuid"
  get_files_by_ids_from_db :: "uuid list \<Rightarrow> exn + db_file list"
  load_tables_from_files :: "db_file list \<Rightarrow> exn + file_collection"
  execute :: "file_collection \<Rightarrow> operation list \<Rightarrow> exn + execution_result"
  str_exn :: "exn \<Rightarrow> string"
  set_iter :: "string set \<Rightarrow> string list"

datatype event =
    DbQuery "uuid list"
  | LoadTables "db_file list"
  | Execute file_collection "operation list"

subsection \<open>Request and response models\<close>

record join_condition_request =
  jc_left_column :: string
  jc_right_column :: string
  jc_operator :: string

record join_request =
  jq_left_file_id :: string
  jq_left_table :: string
  jq_right_file_id :: string
  jq_right_table :: string
  jq_join_type :: string
  jq_conditions :: "join_condition_request list"
  jq_output_sheet_name :: string

record merge_request =
  mq_file_ids :: "string list"
  mq_tables :: "string list"
  mq_merge_type :: string
  mq_output_sheet_name :: string

record cross_reference_request =
  xq_source_file_id :: string
  xq_source_table :: string
  xq_source_column :: string
  xq_target_file_id :: string
  xq_target_table :: string
  xq_target_column :: string
  xq_reference_type :: string
  xq_output_sheet_name :: "string option"

record multi_file_analysis_request =
  aq_file_ids :: "string list"
  aq_analysis_type :: string

record join_result =
  jr_success :: bool
  jr_output_file_id :: "string option"
  jr_output_sheet_name :: "string option"
  jr_row_count :: "nat option"
  jr_column_count :: "nat option"
  jr_error :: "string option"

record merge_result =
  mr_success :: bool
  mr_output_file_id :: "string option"
  mr_output_sheet_name :: "string option"
  mr_row_count :: "nat option"
  mr_column_count :: "nat option"
  mr_error :: "string option"

record cross_reference_result =
  xr_success :: bool
  xr_target_file_id :: "string option"
  xr_target_sheet_name :: "string option"
  xr_target_column :: "string option"
  xr_formula :: "string option"
  xr_error :: "string option"

record file_schema =
  file_id :: string
  filename :: string
  sheets :: "(string \<times> string list) list"

record relationship_info =
  source_file :: string
  source_sheet :: string
  source_column :: string
  target_file :: string
  target_sheet :: string
  target_column :: string
  relationship_type :: string

record multi_file_analysis_result =
  file_schemas :: "file_schema list"
  relationships :: "relationship_info list"
  suggestions :: "string list"

text \<open>
  \<^verbatim>\<open>ApiResponse\<close> (\<^verbatim>\<open>app.schemas.response\<close>) is imported; \<open>None\<close> in \<open>code\<close> or \<open>msg\<close>
  is an argument the module leaves to the class's default.
\<close>

record 'a api_response =
  code :: "nat option"
  data :: 'a
  msg :: "string option"

text \<open>An endpoint either raises (FastAPI then answers with the exception's status) or returns.\<close>

datatype 'a outcome = Raised exn | Returned "'a api_response"

subsection \<open>Helper functions\<close>

text \<open>
  \<^verbatim>\<open>validate_files_access\<close>: the loop over the files the database returned. The first file
  whose owner differs from the caller raises; the others are collected in order.
\<close>

fun check_owner :: "db_file list \<Rightarrow> uuid \<Rightarrow> db_file list \<Rightarrow> exn + db_file list" where
  "check_owner [] user_id valid_files = Inr valid_files"
| "check_owner (file # files) user_id valid_files =
     (if db_user_id file \<noteq> user_id
      then Inl (HTTPException 403 (MSG_NO_ACCESS @ db_filename file))
      else check_owner files user_id (valid_files @ [file]))"

definition validate_files_access ::
  "world \<Rightarrow> uuid list \<Rightarrow> uuid \<Rightarrow> (exn + db_file list) \<times> event list" where
  "validate_files_access w file_ids user_id =
     (case get_files_by_ids_from_db w file_ids of
        Inl e \<Rightarrow> (Inl e, [DbQuery file_ids])
      | Inr files \<Rightarrow> (check_owner files user_id [], [DbQuery file_ids]))"

text \<open>
  The comprehension \<^verbatim>\<open>[UUID(fid) for fid in file_ids]\<close>: it stops at the first identifier
  that \<^verbatim>\<open>UUID\<close> rejects.
\<close>

fun parse_uuids :: "world \<Rightarrow> string list \<Rightarrow> string + uuid list" where
  "parse_uuids w [] = Inr []"
| "parse_uuids w (fid # fids) =
     (case UUID w fid of
        Inl m \<Rightarrow> Inl m
      | Inr u \<Rightarrow> (case parse_uuids w fids of Inl m \<Rightarrow> Inl m | Inr us \<Rightarrow> Inr (u # us)))"

definition load_file_collection ::
  "world \<Rightarrow> string list \<Rightarrow> uuid \<Rightarrow> (exn + file_collection) \<times> event list" where
  "load_file_collection w file_ids user_id =
     (case parse_uuids w file_ids of
        Inl m \<Rightarrow> (Inl (HTTPException 400 (MSG_BAD_FILE_ID @ m)), [])
      | Inr uuid_file_ids \<Rightarrow>
          (case validate_files_access w uuid_file_ids user_id of
             (Inl e, tr) \<Rightarrow> (Inl e, tr)
           | (Inr files, tr) \<Rightarrow> (load_tables_from_files w files, tr @ [LoadTables files])))"

subsection \<open>Analysis\<close>

text \<open>The first loop of \<^verbatim>\<open>analyze_multifile\<close>: one \<^verbatim>\<open>FileSchema\<close> per entry of the schemas.\<close>

definition sheet_columns :: "(string \<times> table) list \<Rightarrow> (string \<times> string list) list" where
  "sheet_columns file_schema = map (\<lambda>(sheet_name, columns). (sheet_name, map snd columns)) file_schema"

fun schemas_loop ::
  "file_collection \<Rightarrow> (string \<times> (string \<times> table) list) list \<Rightarrow> file_schema list
   \<Rightarrow> exn + file_schema list" where
  "schemas_loop fc [] acc = Inr acc"
| "schemas_loop fc ((fid, file_schema) # rest) acc =
     (case get_file fc fid of
        None \<Rightarrow> Inl (PyError ''AttributeError'')
      | Some file \<Rightarrow>
          schemas_loop fc rest
            (acc @ [\<lparr>file_id = fid, filename = xf_filename file,
                     sheets = sheet_columns file_schema\<rparr>]))"

text \<open>The innermost loop, \<^verbatim>\<open>for col in common_cols\<close>: one record appended per column.\<close>

fun col_loop ::
  "string list \<Rightarrow> string \<Rightarrow> string \<Rightarrow> string \<Rightarrow> string \<Rightarrow> relationship_info list
   \<Rightarrow> relationship_info list" where
  "col_loop [] file_id1 sheet1 file_id2 sheet2 rels = rels"
| "col_loop (col # cols) file_id1 sheet1 file_id2 sheet2 rels =
     col_loop cols file_id1 sheet1 file_id2 sheet2
       (rels @ [\<lparr>source_file = file_id1, source_sheet = sheet1, source_column = col,
                 target_file = file_id2, target_sheet = sheet2, target_column = col,
                 relationship_type = ''potential_join''\<rparr>])"

text \<open>\<^verbatim>\<open>for sheet2 in file2.get_sheet_names()\<close>, with the body of the sheet pair.\<close>

fun sheet2_loop ::
  "world \<Rightarrow> excel_file \<Rightarrow> excel_file \<Rightarrow> string \<Rightarrow> string \<Rightarrow> string \<Rightarrow> string list
   \<Rightarrow> relationship_info list \<Rightarrow> exn + relationship_info list" where
  "sheet2_loop w file1 file2 file_id1 file_id2 sheet1 [] rels = Inr rels"
| "sheet2_loop w file1 file2 file_id1 file_id2 sheet1 (sheet2 # rest) rels =
     (case get_sheet file1 sheet1 of
        None \<Rightarrow> Inl (PyError ''AttributeError'')
      | Some table1 \<Rightarrow>
          (case get_sheet file2 sheet2 of
             None \<Rightarrow> Inl (PyError ''AttributeError'')
           | Some table2 \<Rightarrow>
               (let cols1 = set (get_columns table1);
                    cols2 = set (get_columns table2);
                    common_cols = cols1 \<inter> cols2
                in sheet2_loop w file1 file2 file_id1 file_id2 sheet1 rest
                     (col_loop (set_iter w common_cols) file_id1 sheet1 file_id2 sheet2 rels))))"

text \<open>\<^verbatim>\<open>for sheet1 in file1.get_sheet_names()\<close>.\<close>

fun sheet1_loop ::
  "world \<Rightarrow> excel_file \<Rightarrow> excel_file \<Rightarrow> string \<Rightarrow> string \<Rightarrow> string list
   \<Rightarrow> relationship_info list \<Rightarrow> exn + relationship_info list" where
  "sheet1_loop w file1 file2 file_id1 file_id2 [] rels = Inr rels"
| "sheet1_loop w file1 file2 file_id1 file_id2 (sheet1 # rest) rels =
     (case sheet2_loop w file1 file2 file_id1 file_id2 sheet1 (get_sheet_names file2) rels of
        Inl e \<Rightarrow> Inl e
      | Inr rels' \<Rightarrow> sheet1_loop w file1 file2 file_id1 file_id2 rest rels')"

definition suggestion :: "string \<Rightarrow> string \<Rightarrow> string" where
  "suggestion name1 name2 = SUGGEST_HEAD @ name1 @ SUGGEST_MID @ name2 @ SUGGEST_TAIL"

text \<open>
  \<^verbatim>\<open>for file_id2 in file_ids[i+1:]\<close>: both files are looked up, the sheet loops run, and one
  suggestion is appended. The state is the pair of the lists \<^verbatim>\<open>relationships\<close> and
  \<^verbatim>\<open>suggestions\<close>.
\<close>

fun inner_loop ::
  "world \<Rightarrow> file_collection \<Rightarrow> string \<Rightarrow> string list
   \<Rightarrow> relationship_info list \<times> string list
   \<Rightarrow> exn + relationship_info list \<times> string list" where
  "inner_loop w fc file_id1 [] st = Inr st"
| "inner_loop w fc file_id1 (file_id2 # rest) (rels, suggs) =
     (case get_file fc file_id1 of
        None \<Rightarrow> Inl (PyError ''AttributeError'')
      | Some file1 \<Rightarrow>
          (case get_file fc file_id2 of
             None \<Rightarrow> Inl (PyError ''AttributeError'')
           | Some file2 \<Rightarrow>
               (case sheet1_loop w file1 file2 file_id1 file_id2 (get_sheet_names file1) rels of
                  Inl e \<Rightarrow> Inl e
                | Inr rels' \<Rightarrow>
                    inner_loop w fc file_id1 rest
                      (rels', suggs @ [suggestion (xf_filename file1) (xf_filename file2)]))))"

text \<open>\<^verbatim>\<open>for i, file_id1 in enumerate(file_ids)\<close>.\<close>

fun outer_loop ::
  "world \<Rightarrow> file_collection \<Rightarrow> string list \<Rightarrow> (nat \<times> string) list
   \<Rightarrow> relationship_info list \<times> string list
   \<Rightarrow> exn + relationship_info list \<times> string list" where
  "outer_loop w fc file_ids [] st = Inr st"
| "outer_loop w fc file_ids ((i, file_id1) # rest) st =
     (case inner_loop w fc file_id1 (drop (i + 1) file_ids) st of
        Inl e \<Rightarrow> Inl e
      | Inr st' \<Rightarrow> outer_loop w fc file_ids rest st')"

text \<open>The body of \<^verbatim>\<open>analyze_multifile\<close> after the collection is loaded.\<close>

definition analyze_collection ::
  "world \<Rightarrow> file_collection \<Rightarrow> exn + multi_file_analysis_result" where
  "analyze_collection w fc =
     (let schemas = get_schemas fc in
      case schemas_loop fc schemas [] of
        Inl e \<Rightarrow> Inl e
      | Inr fschemas \<Rightarrow>
          (let file_ids = map fst schemas in
           case outer_loop w fc file_ids (enumerate 0 file_ids) ([], []) of
             Inl e \<Rightarrow> Inl e
           | Inr (rels, suggs) \<Rightarrow>
               Inr \<lparr>file_schemas = fschemas, relationships = rels,
                    suggestions = (if rels = [] then suggs @ [SUGGEST_FALLBACK] else suggs)\<rparr>))"

definition analyze_multifile ::
  "world \<Rightarrow> multi_file_analysis_request \<Rightarrow> uuid
   \<Rightarrow> multi_file_analysis_result outcome \<times> event list" where
  "analyze_multifile w request user_id =
     (case load_file_collection w (aq_file_ids request) user_id of
        (Inl e, tr) \<Rightarrow> (Raised (HTTPException 500 (MSG_ANALYZE_FAILED @ str_exn w e)), tr)
      | (Inr fc, tr) \<Rightarrow>
          (case analyze_collection w fc of
             Inl e \<Rightarrow> (Raised (HTTPException 500 (MSG_ANALYZE_FAILED @ str_exn w e)), tr)
           | Inr result \<Rightarrow> (Returned \<lparr>code = None, data = result, msg = None\<rparr>, tr)))"

subsection \<open>Join\<close>

text \<open>
  The lookup of the output sheet in \<^verbatim>\<open>result.new_sheets\<close>, shared by the text of
  \<^verbatim>\<open>join_files\<close> and \<^verbatim>\<open>merge_files\<close>: the pair (row count, column count).
\<close>

definition result_counts :: "execution_result \<Rightarrow> string \<Rightarrow> string \<Rightarrow> nat \<times> nat" where
  "result_counts result output_file_id output_sheet_name =
     (case new_sheets result output_file_id of
        None \<Rightarrow> (0, 0)
      | Some file_sheets \<Rightarrow>
          (case file_sheets output_sheet_name of
             None \<Rightarrow> (0, 0)
           | Some result_data \<Rightarrow>
               (rd_len result_data,
                case rd_columns result_data of Some cols \<Rightarrow> length cols | None \<Rightarrow> 0)))"

text \<open>The handler \<^verbatim>\<open>except Exception as e\<close> of \<^verbatim>\<open>join_files\<close>.\<close>

definition join_except :: "world \<Rightarrow> exn \<Rightarrow> join_result outcome" where
  "join_except w e =
     Returned \<lparr>code = Some 500,
               data = \<lparr>jr_success = False, jr_output_file_id = None,
                        jr_output_sheet_name = None, jr_row_count = None,
                        jr_column_count = None, jr_error = Some (str_exn w e)\<rparr>,
               msg = Some MSG_JOIN_FAILED\<rparr>"

definition join_operation :: "join_request \<Rightarrow> operation" where
  "join_operation request =
     JoinOperation
       (jq_left_file_id request) (jq_left_table request)
       (jq_right_file_id request) (jq_right_table request)
       (jq_join_type request)
       (map (\<lambda>cond. JoinCondition (jc_left_column cond) (jc_right_column cond)
                      (jc_operator cond))
            (jq_conditions request))
       (NewSheet (jq_output_sheet_name request))
       (jq_join_type request @ DESC_JOIN @ jq_left_file_id request @ ''.''
          @ jq_left_table request @ DESC_AND @ jq_right_file_id request @ ''.''
          @ jq_right_table request)"

text \<open>What \<^verbatim>\<open>join_files\<close> does with the engine's result.\<close>

definition join_response :: "join_request \<Rightarrow> execution_result \<Rightarrow> join_result outcome" where
  "join_response request result =
     (if has_errors result
      then Returned \<lparr>code = Some 400,
                     data = \<lparr>jr_success = False, jr_output_file_id = None,
                              jr_output_sheet_name = None, jr_row_count = None,
                              jr_column_count = None,
                              jr_error = Some (join ''; '' (errors result))\<rparr>,
                     msg = Some MSG_JOIN_FAILED\<rparr>
      else
        (let output_file_id = jq_left_file_id request;
             output_sheet_name = jq_output_sheet_name request;
             (row_count, column_count) = result_counts result output_file_id output_sheet_name
         in Returned \<lparr>code = None,
                       data = \<lparr>jr_success = True, jr_output_file_id = Some output_file_id,
                                jr_output_sheet_name = Some output_sheet_name,
                                jr_row_count = Some row_count,
                                jr_column_count = Some column_count, jr_error = None\<rparr>,
                       msg = None\<rparr>))"

definition join_files ::
  "world \<Rightarrow> join_request \<Rightarrow> uuid \<Rightarrow> join_result outcome \<times> event list" where
  "join_files w request user_id =
     (case load_file_collection w [jq_left_file_id request, jq_right_file_id request] user_id of
        (Inl e, tr) \<Rightarrow> (join_except w e, tr)
      | (Inr fc, tr) \<Rightarrow>
          (let join_op = join_operation request in
           case execute w fc [join_op] of
             Inl e \<Rightarrow> (join_except w e, tr @ [Execute fc [join_op]])
           | Inr result \<Rightarrow> (join_response request result, tr @ [Execute fc [join_op]])))"

subsection \<open>Merge\<close>

definition merge_except :: "world \<Rightarrow> exn \<Rightarrow> merge_result outcome" where
  "merge_except w e =
     Returned \<lparr>code = Some 500,
               data = \<lparr>mr_success = False, mr_output_file_id = None,
                        mr_output_sheet_name = None, mr_row_count = None,
                        mr_column_count = None, mr_error = Some (str_exn w e)\<rparr>,
               msg = Some MSG_MERGE_FAILED\<rparr>"

text \<open>The two early returns of \<^verbatim>\<open>merge_files\<close> build this envelope.\<close>

definition merge_param_error :: "string \<Rightarrow> merge_result outcome" where
  "merge_param_error text =
     Returned \<lparr>code = Some 400,
               data = \<lparr>mr_success = False, mr_output_file_id = None,
                        mr_output_sheet_name = None, mr_row_count = None,
                        mr_column_count = None, mr_error = Some text\<rparr>,
               msg = Some MSG_PARAM_ERROR\<rparr>"

definition merge_operation :: "merge_request \<Rightarrow> operation" where
  "merge_operation request =
     MergeOperation (mq_file_ids request) (mq_tables request) (mq_merge_type request)
       (NewSheet (mq_output_sheet_name request))
       (mq_merge_type request @ DESC_MERGE @ str_nat (length (mq_file_ids request))
          @ DESC_FILES)"

text \<open>
  What \<^verbatim>\<open>merge_files\<close> does with the engine's result; \<^verbatim>\<open>request.file_ids[0]\<close> raises
  \<^verbatim>\<open>IndexError\<close> on an empty list, which the handler catches.
\<close>

definition merge_response ::
  "world \<Rightarrow> merge_request \<Rightarrow> execution_result \<Rightarrow> merge_result outcome" where
  "merge_response w request result =
     (if has_errors result
      then Returned \<lparr>code = Some 400,
                     data = \<lparr>mr_success = False, mr_output_file_id = None,
                              mr_output_sheet_name = None, mr_row_count = None,
                              mr_column_count = None,
                              mr_error = Some (join ''; '' (errors result))\<rparr>,
                     msg = Some MSG_MERGE_FAILED\<rparr>
      else
        (case mq_file_ids request of
           [] \<Rightarrow> merge_except w (PyError ''IndexError'')
         | output_file_id # _ \<Rightarrow>
             (let output_sheet_name = mq_output_sheet_name request;
                  (row_count, column_count) =
                     result_counts result output_file_id output_sheet_name
              in Returned \<lparr>code = None,
                            data = \<lparr>mr_success = True,
                                     mr_output_file_id = Some output_file_id,
                                     mr_output_sheet_name = Some output_sheet_name,
                                     mr_row_count = Some row_count,
                                     mr_column_count = Some column_count,
                                     mr_error = None\<rparr>,
                            msg = None\<rparr>)))"

definition merge_files ::
  "world \<Rightarrow> merge_request \<Rightarrow> uuid \<Rightarrow> merge_result outcome \<times> event list" where
  "merge_files w request user_id =
     (if length (mq_file_ids request) \<noteq> length (mq_tables request)
      then (merge_param_error ERR_LENGTH_MISMATCH, [])
      else if length (mq_file_ids request) < 2
      then (merge_param_error ERR_MIN_FILES, [])
      else
        (case load_file_collection w (mq_file_ids request) user_id of
           (Inl e, tr) \<Rightarrow> (merge_except w e, tr)
         | (Inr fc, tr) \<Rightarrow>
             (let merge_op = merge_operation request in
              case execute w fc [merge_op] of
                Inl e \<Rightarrow> (merge_except w e, tr @ [Execute fc [merge_op]])
              | Inr result \<Rightarrow>
                  (merge_response w request result, tr @ [Execute fc [merge_op]]))))"

subsection \<open>Cross-file reference\<close>

definition reference_except :: "world \<Rightarrow> exn \<Rightarrow> cross_reference_result outcome" where
  "reference_except w e =
     Returned \<lparr>code = Some 500,
               data = \<lparr>xr_success = False, xr_target_file_id = None,
                        xr_target_sheet_name = None, xr_target_column = None,
                        xr_formula = None, xr_error = Some (str_exn w e)\<rparr>,
               msg = Some MSG_REFERENCE_FAILED\<rparr>"

text \<open>
  \<^verbatim>\<open>output_type = "in_place"\<close>, replaced by the new-sheet dictionary under
  \<^verbatim>\<open>if request.output_sheet_name:\<close>, which is false for \<^verbatim>\<open>None\<close> and for the empty string.
\<close>

definition reference_output :: "cross_reference_request \<Rightarrow> output_spec" where
  "reference_output request =
     (case xq_output_sheet_name request of
        None \<Rightarrow> InPlace
      | Some name \<Rightarrow> (if name = [] then InPlace else NewSheet name))"

definition reference_operation :: "cross_reference_request \<Rightarrow> operation" where
  "reference_operation request =
     CrossFileReferenceOperation
       (xq_source_file_id request) (xq_source_table request) (xq_source_column request)
       (xq_target_file_id request) (xq_target_table request) (xq_target_column request)
       (xq_reference_type request)
       (reference_output request)
       (DESC_FROM @ xq_source_file_id request @ ''.'' @ xq_source_table request
          @ DESC_REFER @ xq_source_column request @ DESC_TO @ xq_target_file_id request
          @ ''.'' @ xq_target_table request)"

definition reference_response ::
  "cross_reference_request \<Rightarrow> execution_result \<Rightarrow> cross_reference_result outcome" where
  "reference_response request result =
     (if has_errors result
      then Returned \<lparr>code = Some 400,
                     data = \<lparr>xr_success = False, xr_target_file_id = None,
                              xr_target_sheet_name = None, xr_target_column = None,
                              xr_formula = None,
                              xr_error = Some (join ''; '' (errors result))\<rparr>,
                     msg = Some MSG_REFERENCE_FAILED\<rparr>
      else
        (let formula =
               (if xq_reference_type request = ''formula'' \<and> excel_formulas result \<noteq> []
                then (case excel_formulas result of [] \<Rightarrow> None | f # _ \<Rightarrow> Some f)
                else None)
         in Returned \<lparr>code = None,
                       data = \<lparr>xr_success = True,
                                xr_target_file_id = Some (xq_target_file_id request),
                                xr_target_sheet_name = Some (xq_target_table request),
                                xr_target_column = Some (xq_target_column request),
                                xr_formula = formula, xr_error = None\<rparr>,
                       msg = None\<rparr>))"

definition cross_file_reference ::
  "world \<Rightarrow> cross_reference_request \<Rightarrow> uuid
   \<Rightarrow> cross_reference_result outcome \<times> event list" where
  "cross_file_reference w request user_id =
     (case load_file_collection w [xq_source_file_id request, xq_target_file_id request]
             user_id of
        (Inl e, tr) \<Rightarrow> (reference_except w e, tr)
      | (Inr fc, tr) \<Rightarrow>
          (let reference_op = reference_operation request in
           case execute w fc [reference_op] of
             Inl e \<Rightarrow> (reference_except w e, tr @ [Execute fc [reference_op]])
           | Inr result \<Rightarrow>
               (reference_response request result, tr @ [Execute fc [reference_op]])))"

subsection \<open>The analysis as the specification words it\<close>

text \<open>
  The spec's algorithm, as list comprehensions, to be compared with the loops of
  \<^verbatim>\<open>analyze_multifile\<close>: all unordered pairs of distinct files in the stable iteration order
  of the schema mapping; for each file pair every sheet of the first file crossed with every
  sheet of the second; for each sheet pair one record per column name in the intersection of
  the two sheets' column-name sets; one suggestion per file pair.
\<close>

fun pairs :: "'a list \<Rightarrow> ('a \<times> 'a) list" where
  "pairs [] = []"
| "pairs (x # xs) = map (Pair x) xs @ pairs xs"

definition spec_relationship ::
  "string \<Rightarrow> string \<Rightarrow> string \<Rightarrow> string \<Rightarrow> string \<Rightarrow> relationship_info" where
  "spec_relationship fid1 sheet1 fid2 sheet2 col =
     \<lparr>source_file = fid1, source_sheet = sheet1, source_column = col,
      target_file = fid2, target_sheet = sheet2, target_column = col,
      relationship_type = ''potential_join''\<rparr>"

definition spec_sheet_pair ::
  "world \<Rightarrow> string \<Rightarrow> string \<Rightarrow> table \<Rightarrow> string \<Rightarrow> string \<Rightarrow> table
   \<Rightarrow> relationship_info list" where
  "spec_sheet_pair w fid1 sheet1 table1 fid2 sheet2 table2 =
     map (spec_relationship fid1 sheet1 fid2 sheet2)
       (set_iter w (set (get_columns table1) \<inter> set (get_columns table2)))"

definition spec_file_pair ::
  "world \<Rightarrow> string \<times> excel_file \<Rightarrow> string \<times> excel_file \<Rightarrow> relationship_info list" where
  "spec_file_pair w entry1 entry2 =
     concat (map (\<lambda>(sheet1, table1).
        concat (map (\<lambda>(sheet2, table2).
           spec_sheet_pair w (fst entry1) sheet1 table1 (fst entry2) sheet2 table2)
           (xf_sheets (snd entry2))))
        (xf_sheets (snd entry1)))"

definition spec_relationships :: "world \<Rightarrow> file_collection \<Rightarrow> relationship_info list" where
  "spec_relationships w fc =
     concat (map (\<lambda>(entry1, entry2). spec_file_pair w entry1 entry2) (pairs fc))"

definition spec_suggestions :: "file_collection \<Rightarrow> string list" where
  "spec_suggestions fc =
     map (\<lambda>(entry1, entry2). suggestion (xf_filename (snd entry1)) (xf_filename (snd entry2)))
       (pairs fc)"

text \<open>The number of column names two sheets share.\<close>

definition shared_columns :: "table \<Rightarrow> table \<Rightarrow> nat" where
  "shared_columns table1 table2 = card (set (get_columns table1) \<inter> set (get_columns table2))"

text \<open>
  A collection is a dictionary of files, and a file a dictionary of sheets: the keys of a
  Python \<^verbatim>\<open>dict\<close> are pairwise distinct.
\<close>

definition wf_collection :: "file_collection \<Rightarrow> bool" where
  "wf_collection fc =
     (distinct (map fst fc) \<and> list_all (\<lambda>(fid, file). distinct (map fst (xf_sheets file))) fc)"

text \<open>
  A \<^verbatim>\<open>for\<close> loop over a finite Python \<^verbatim>\<open>set\<close> visits each element exactly once, in some
  order.
\<close>

definition enumerates :: "(string set \<Rightarrow> string list) \<Rightarrow> bool" where
  "enumerates iter = (\<forall>S. finite S \<longrightarrow> set (iter S) = S \<and> distinct (iter S))"

subsection \<open>Example data\<close>

text \<open>
  A small instance of the collaborators, used to run the endpoints on concrete requests:
  four stored files, three of them owned by \<open>alice\<close> and one by \<open>bob\<close>; a stand-in for \<^verbatim>\<open>UUID\<close> that accepts
  the texts of 36 characters; an engine that reports an empty result.
\<close>

definition alice :: uuid where
  "alice = ''11111111-1111-1111-1111-111111111111''"

definition bob :: uuid where
  "bob = ''22222222-2222-2222-2222-222222222222''"

definition id_a :: uuid where
  "id_a = ''aaaaaaaa-aaaa-aaaa-aaaa-aaaaaaaaaaaa''"

definition id_b :: uuid where
  "id_b = ''bbbbbbbb-bbbb-bbbb-bbbb-bbbbbbbbbbbb''"

definition id_c :: uuid where
  "id_c = ''cccccccc-cccc-cccc-cccc-cccccccccccc''"

definition id_d :: uuid where
  "id_d = ''dddddddd-dddd-dddd-dddd-dddddddddddd''"

definition file_a :: db_file where
  "file_a = \<lparr>db_id = id_a, db_user_id = alice, db_filename = ''a.xlsx''\<rparr>"

definition file_b :: db_file where
  "file_b = \<lparr>db_id = id_b, db_user_id = alice, db_filename = ''b.xlsx''\<rparr>"

definition file_c :: db_file where
  "file_c = \<lparr>db_id = id_c, db_user_id = alice, db_filename = ''c.xlsx''\<rparr>"

definition file_d :: db_file where
  "file_d = \<lparr>db_id = id_d, db_user_id = bob, db_filename = ''d.xlsx''\<rparr>"

definition excel_a :: excel_file where
  "excel_a = \<lparr>xf_filename = ''a.xlsx'',
              xf_sheets = [(''People'', [(''A'', ''id''), (''B'', ''name'')])]\<rparr>"

definition excel_b :: excel_file where
  "excel_b = \<lparr>xf_filename = ''b.xlsx'',
              xf_sheets = [(''Orders'', [(''A'', ''id''), (''B'', ''name''), (''C'', ''total'')]),
                           (''Notes'', [(''A'', ''text'')])]\<rparr>"

definition excel_c :: excel_file where
  "excel_c = \<lparr>xf_filename = ''c.xlsx'',
              xf_sheets = [(''Stock'', [(''A'', ''sku''), (''B'', ''count'')])]\<rparr>"

definition excel_d :: excel_file where
  "excel_d = \<lparr>xf_filename = ''d.xlsx'',
              xf_sheets = [(''Payroll'', [(''A'', ''id''), (''B'', ''salary'')])]\<rparr>"

definition stored_tables :: file_collection where
  "stored_tables = [(id_a, excel_a), (id_b, excel_b), (id_c, excel_c), (id_d, excel_d)]"

text \<open>The three files of \<open>alice\<close>, as loaded.\<close>

definition example_collection :: file_collection where
  "example_collection = [(id_a, excel_a), (id_b, excel_b), (id_c, excel_c)]"

definition empty_result :: execution_result where
  "empty_result = \<lparr>errors = [], new_sheets = Map.empty, excel_formulas = []\<rparr>"

definition example_world :: world where
  "example_world =
     \<lparr>UUID = (\<lambda>fid. if length fid = 36 then Inr fid
                      else Inl ''badly formed hexadecimal UUID string''),
      get_files_by_ids_from_db =
        (\<lambda>ids. Inr (filter (\<lambda>f. db_id f \<in> set ids) [file_a, file_b, file_c, file_d])),
      load_tables_from_files =
        (\<lambda>files. Inr (filter (\<lambda>(fid, f). fid \<in> set (map db_id files)) stored_tables)),
      execute = (\<lambda>fc ops. Inr empty_result),
      str_exn = (\<lambda>e. case e of HTTPException status text \<Rightarrow> text | PyError text \<Rightarrow> text),
      set_iter = sorted_list_of_set\<rparr>"

definition example_join_request :: join_request where
  "example_join_request =
     \<lparr>jq_left_file_id = id_a, jq_left_table = ''People'',
      jq_right_file_id = id_b, jq_right_table = ''Orders'',
      jq_join_type = ''inner'',
      jq_conditions = [\<lparr>jc_left_column = ''id'', jc_right_column = ''id'', jc_operator = ''=''\<rparr>],
      jq_output_sheet_name = ''joined''\<rparr>"

definition example_merge_request :: merge_request where
  "example_merge_request =
     \<lparr>mq_file_ids = [id_a, id_b], mq_tables = [''People'', ''Orders''],
      mq_merge_type = ''vertical'', mq_output_sheet_name = ''merged''\<rparr>"

definition example_reference_request :: cross_reference_request where
  "example_reference_request =
     \<lparr>xq_source_file_id = id_a, xq_source_table = ''People'', xq_source_column = ''name'',
      xq_target_file_id = id_b, xq_target_table = ''Orders'', xq_target_column = ''name'',
      xq_reference_type = ''copy'', xq_output_sheet_name = None\<rparr>"

definition example_analysis_request :: multi_file_analysis_request where
  "example_analysis_request =
     \<lparr>aq_file_ids = [id_a, id_b, id_c], aq_analysis_type = ''relationships''\<rparr>"

text \<open>An engine that reports two errors, whatever it is asked.\<close>

definition failing_result :: execution_result where
  "failing_result =
     \<lparr>errors = [''left table missing'', ''right table missing''],
      new_sheets = Map.empty, excel_formulas = []\<rparr>"

definition failing_world :: world where
  "failing_world = example_world\<lparr>execute := (\<lambda>fc ops. Inr failing_result)\<rparr>"

text \<open>Two files that share no column name.\<close>

definition unrelated_files :: file_collection where
  "unrelated_files = [(id_a, excel_a), (id_c, excel_c)]"

section \<open>Properties\<close>

subsection \<open>Shared facts\<close>

lemmas example_defs =
  example_world_def failing_world_def alice_def bob_def id_a_def id_b_def id_c_def id_d_def
  file_a_def file_b_def file_c_def file_d_def excel_a_def excel_b_def excel_c_def excel_d_def
  stored_tables_def example_collection_def empty_result_def failing_result_def
  example_join_request_def example_merge_request_def example_reference_request_def
  example_analysis_request_def

lemma join_files_loaded:
  assumes "load_file_collection w [jq_left_file_id request, jq_right_file_id request] user_id
             = (Inr fc, tr)"
    and "execute w fc [join_operation request] = Inr result"
  shows "join_files w request user_id
           = (join_response request result, tr @ [Execute fc [join_operation request]])"
  using assms by (simp add: join_files_def Let_def)

lemma merge_files_loaded:
  assumes "length (mq_file_ids request) = length (mq_tables request)"
    and "2 \<le> length (mq_file_ids request)"
    and "load_file_collection w (mq_file_ids request) user_id = (Inr fc, tr)"
    and "execute w fc [merge_operation request] = Inr result"
  shows "merge_files w request user_id
           = (merge_response w request result, tr @ [Execute fc [merge_operation request]])"
proof -
  from assms(2) have "\<not> length (mq_file_ids request) < 2" by linarith
  with assms(1,3,4) show ?thesis by (simp add: merge_files_def Let_def)
qed

lemma cross_file_reference_loaded:
  assumes "load_file_collection w [xq_source_file_id request, xq_target_file_id request]
             user_id = (Inr fc, tr)"
    and "execute w fc [reference_operation request] = Inr result"
  shows "cross_file_reference w request user_id
           = (reference_response request result,
              tr @ [Execute fc [reference_operation request]])"
  using assms by (simp add: cross_file_reference_def Let_def)

lemma load_file_collection_events:
  "ev \<in> set (snd (load_file_collection w file_ids user_id))
   \<Longrightarrow> (\<exists>ids. ev = DbQuery ids) \<or> (\<exists>files. ev = LoadTables files)"
  by (auto simp: load_file_collection_def validate_files_access_def
           split: sum.splits prod.splits)

lemma join_files_events:
  "snd (join_files w request user_id)
     = snd (load_file_collection w [jq_left_file_id request, jq_right_file_id request] user_id)
       @ (case fst (load_file_collection w [jq_left_file_id request, jq_right_file_id request]
                      user_id) of
            Inl e \<Rightarrow> []
          | Inr fc \<Rightarrow> [Execute fc [join_operation request]])"
  by (auto simp: join_files_def Let_def split: sum.splits prod.splits)

lemma cross_file_reference_events:
  "snd (cross_file_reference w request user_id)
     = snd (load_file_collection w [xq_source_file_id request, xq_target_file_id request]
              user_id)
       @ (case fst (load_file_collection w
                      [xq_source_file_id request, xq_target_file_id request] user_id) of
            Inl e \<Rightarrow> []
          | Inr fc \<Rightarrow> [Execute fc [reference_operation request]])"
  by (auto simp: cross_file_reference_def Let_def split: sum.splits prod.splits)

lemma parse_uuids_malformed:
  "\<exists>fid\<in>set file_ids. isl (UUID w fid) \<Longrightarrow> \<exists>m. parse_uuids w file_ids = Inl m"
proof (induction file_ids)
  case Nil
  then show ?case by simp
next
  case (Cons fid fids)
  show ?case
  proof (cases "UUID w fid")
    case (Inl m)
    then show ?thesis by simp
  next
    case (Inr u)
    with Cons.prems have "\<exists>x\<in>set fids. isl (UUID w x)" by auto
    then obtain m where "parse_uuids w fids = Inl m" using Cons.IH by blast
    with Inr show ?thesis by simp
  qed
qed

lemma load_file_collection_malformed:
  assumes "\<exists>fid\<in>set file_ids. isl (UUID w fid)"
  shows "\<exists>m. load_file_collection w file_ids user_id
               = (Inl (HTTPException 400 (MSG_BAD_FILE_ID @ m)), [])"
proof -
  from parse_uuids_malformed [OF assms] obtain m where "parse_uuids w file_ids = Inl m" ..
  then show ?thesis by (simp add: load_file_collection_def)
qed

lemma check_owner_first_offender:
  assumes "\<forall>f\<in>set owned. db_user_id f = user_id" and "db_user_id file \<noteq> user_id"
  shows "check_owner (owned @ file # others) user_id valid_files
           = Inl (HTTPException 403 (MSG_NO_ACCESS @ db_filename file))"
  using assms by (induction owned arbitrary: valid_files) auto

lemma check_owner_all_owned:
  assumes "\<forall>f\<in>set files. db_user_id f = user_id"
  shows "check_owner files user_id valid_files = Inr (valid_files @ files)"
  using assms by (induction files arbitrary: valid_files) auto

lemma load_file_collection_forbidden:
  assumes "parse_uuids w file_ids = Inr uuids"
    and "get_files_by_ids_from_db w uuids = Inr (owned @ file # others)"
    and "\<forall>f\<in>set owned. db_user_id f = user_id" and "db_user_id file \<noteq> user_id"
  shows "load_file_collection w file_ids user_id
           = (Inl (HTTPException 403 (MSG_NO_ACCESS @ db_filename file)), [DbQuery uuids])"
  using assms
  by (simp add: load_file_collection_def validate_files_access_def check_owner_first_offender)

lemma result_counts_absent:
  "new_sheets result fid = None \<or> (\<exists>m. new_sheets result fid = Some m \<and> m name = None)
   \<Longrightarrow> result_counts result fid name = (0, 0)"
  by (auto simp: result_counts_def)

lemma load_example_ab:
  "load_file_collection example_world [id_a, id_b] alice
     = (Inr [(id_a, excel_a), (id_b, excel_b)],
        [DbQuery [id_a, id_b], LoadTables [file_a, file_b]])"
  by (simp add: load_file_collection_def validate_files_access_def example_defs)

lemma load_failing_ab:
  "load_file_collection failing_world [id_a, id_b] alice
     = (Inr [(id_a, excel_a), (id_b, excel_b)],
        [DbQuery [id_a, id_b], LoadTables [file_a, file_b]])"
  by (simp add: load_file_collection_def validate_files_access_def example_defs)

subsection \<open>Merge: local validation\<close>

text \<open>
  C3. A Merge request whose \<open>file_ids\<close> and \<open>tables\<close> differ in length, or that names fewer
  than two files, is answered by a returned envelope (nothing is raised) whose result has
  \<open>success = False\<close> and carries the length-mismatch message, or else the minimum-file-count
  message; the list of events is empty, so neither the database, nor the loader, nor the
  engine has been called.
\<close>

theorem merge_validation_is_local:
  assumes "length (mq_file_ids request) \<noteq> length (mq_tables request)
           \<or> length (mq_file_ids request) < 2"
  shows "\<exists>env. merge_files w request user_id = (Returned env, [])
           \<and> mr_success (data env) = False
           \<and> mr_error (data env) =
               Some (if length (mq_file_ids request) \<noteq> length (mq_tables request)
                     then ERR_LENGTH_MISMATCH else ERR_MIN_FILES)"
  using assms by (auto simp: merge_files_def merge_param_error_def)

theorem merge_validation_is_local_witness:
  "merge_files example_world
      \<lparr>mq_file_ids = [id_a, id_b, id_c], mq_tables = [''t1'', ''t2''],
       mq_merge_type = ''vertical'', mq_output_sheet_name = ''out''\<rparr> alice
    = (Returned \<lparr>code = Some 400,
         data = \<lparr>mr_success = False, mr_output_file_id = None,
                  mr_output_sheet_name = None, mr_row_count = None,
                  mr_column_count = None, mr_error = Some ERR_LENGTH_MISMATCH\<rparr>,
         msg = Some MSG_PARAM_ERROR\<rparr>, [])"
  using merge_validation_is_local
    [of "\<lparr>mq_file_ids = [id_a, id_b, id_c], mq_tables = [''t1'', ''t2''],
          mq_merge_type = ''vertical'', mq_output_sheet_name = ''out''\<rparr>" example_world alice]
  by (simp add: merge_files_def merge_param_error_def)

subsection \<open>Join and Merge: where the output is reported\<close>

text \<open>
  C6. When the files load and the engine returns a result without errors, \<^verbatim>\<open>join_files\<close>
  returns a success result that names the left file id and the requested output sheet name,
  and \<^verbatim>\<open>merge_files\<close> one that names the first file id of the request and the requested
  output sheet name. When \<open>new_sheets\<close> has no entry for that file id, or its entry has none for
  that sheet name, both counts are reported as 0, still with \<open>success = True\<close>.
\<close>

theorem output_location_policy:
  "(load_file_collection w [jq_left_file_id jreq, jq_right_file_id jreq] user_id = (Inr fc, tr)
      \<and> execute w fc [join_operation jreq] = Inr result \<and> \<not> has_errors result
    \<longrightarrow> (\<exists>env. fst (join_files w jreq user_id) = Returned env
          \<and> jr_success (data env) \<and> jr_error (data env) = None
          \<and> jr_output_file_id (data env) = Some (jq_left_file_id jreq)
          \<and> jr_output_sheet_name (data env) = Some (jq_output_sheet_name jreq)
          \<and> (new_sheets result (jq_left_file_id jreq) = None
                \<or> (\<exists>m. new_sheets result (jq_left_file_id jreq) = Some m
                       \<and> m (jq_output_sheet_name jreq) = None)
              \<longrightarrow> jr_row_count (data env) = Some 0 \<and> jr_column_count (data env) = Some 0)))
   \<and> (mq_file_ids mreq = first # others
      \<and> length (mq_file_ids mreq) = length (mq_tables mreq) \<and> 2 \<le> length (mq_file_ids mreq)
      \<and> load_file_collection w (mq_file_ids mreq) user_id = (Inr fc', tr')
      \<and> execute w fc' [merge_operation mreq] = Inr result' \<and> \<not> has_errors result'
    \<longrightarrow> (\<exists>env. fst (merge_files w mreq user_id) = Returned env
          \<and> mr_success (data env) \<and> mr_error (data env) = None
          \<and> mr_output_file_id (data env) = Some first
          \<and> mr_output_sheet_name (data env) = Some (mq_output_sheet_name mreq)
          \<and> (new_sheets result' first = None
                \<or> (\<exists>m. new_sheets result' first = Some m
                       \<and> m (mq_output_sheet_name mreq) = None)
              \<longrightarrow> mr_row_count (data env) = Some 0 \<and> mr_column_count (data env) = Some 0)))"
proof (intro conjI impI)
  assume a: "load_file_collection w [jq_left_file_id jreq, jq_right_file_id jreq] user_id = (Inr fc, tr)
      \<and> execute w fc [join_operation jreq] = Inr result \<and> \<not> has_errors result"
  then have "fst (join_files w jreq user_id) = join_response jreq result"
    by (simp add: join_files_loaded)
  with a show "\<exists>env. fst (join_files w jreq user_id) = Returned env
          \<and> jr_success (data env) \<and> jr_error (data env) = None
          \<and> jr_output_file_id (data env) = Some (jq_left_file_id jreq)
          \<and> jr_output_sheet_name (data env) = Some (jq_output_sheet_name jreq)
          \<and> (new_sheets result (jq_left_file_id jreq) = None
                \<or> (\<exists>m. new_sheets result (jq_left_file_id jreq) = Some m
                       \<and> m (jq_output_sheet_name jreq) = None)
              \<longrightarrow> jr_row_count (data env) = Some 0 \<and> jr_column_count (data env) = Some 0)"
    using result_counts_absent [of result "jq_left_file_id jreq" "jq_output_sheet_name jreq"]
    by (auto simp: join_response_def Let_def split: prod.splits)
next
  assume a: "mq_file_ids mreq = first # others
      \<and> length (mq_file_ids mreq) = length (mq_tables mreq) \<and> 2 \<le> length (mq_file_ids mreq)
      \<and> load_file_collection w (mq_file_ids mreq) user_id = (Inr fc', tr')
      \<and> execute w fc' [merge_operation mreq] = Inr result' \<and> \<not> has_errors result'"
  then have "merge_files w mreq user_id
       = (merge_response w mreq result', tr' @ [Execute fc' [merge_operation mreq]])"
    by (intro merge_files_loaded) blast+
  then have "fst (merge_files w mreq user_id) = merge_response w mreq result'"
    by simp
  with a show "\<exists>env. fst (merge_files w mreq user_id) = Returned env
          \<and> mr_success (data env) \<and> mr_error (data env) = None
          \<and> mr_output_file_id (data env) = Some first
          \<and> mr_output_sheet_name (data env) = Some (mq_output_sheet_name mreq)
          \<and> (new_sheets result' first = None
                \<or> (\<exists>m. new_sheets result' first = Some m
                       \<and> m (mq_output_sheet_name mreq) = None)
              \<longrightarrow> mr_row_count (data env) = Some 0 \<and> mr_column_count (data env) = Some 0)"
    using result_counts_absent [of result' first "mq_output_sheet_name mreq"]
    by (auto simp: merge_response_def Let_def split: prod.splits)
qed

theorem output_location_policy_witness:
  "fst (join_files example_world example_join_request alice)
     = Returned \<lparr>code = None,
         data = \<lparr>jr_success = True, jr_output_file_id = Some id_a,
                  jr_output_sheet_name = Some ''joined'', jr_row_count = Some 0,
                  jr_column_count = Some 0, jr_error = None\<rparr>,
         msg = None\<rparr>
   \<and> fst (merge_files example_world example_merge_request alice)
     = Returned \<lparr>code = None,
         data = \<lparr>mr_success = True, mr_output_file_id = Some id_a,
                  mr_output_sheet_name = Some ''merged'', mr_row_count = Some 0,
                  mr_column_count = Some 0, mr_error = None\<rparr>,
         msg = None\<rparr>"
proof -
  let ?fc = "[(id_a, excel_a), (id_b, excel_b)]"
  let ?tr = "[DbQuery [id_a, id_b], LoadTables [file_a, file_b]]"
  have lj: "load_file_collection example_world
              [jq_left_file_id example_join_request, jq_right_file_id example_join_request] alice
            = (Inr ?fc, ?tr)"
    using load_example_ab by (simp add: example_join_request_def)
  have lm: "load_file_collection example_world (mq_file_ids example_merge_request) alice
            = (Inr ?fc, ?tr)"
    using load_example_ab by (simp add: example_merge_request_def)
  have ex: "execute example_world ?fc ops = Inr empty_result" for ops
    by (simp add: example_world_def)
  have ne: "\<not> has_errors empty_result" "new_sheets empty_result k = None" for k
    by (simp_all add: has_errors_def empty_result_def)
  have m: "mq_file_ids example_merge_request = id_a # [id_b]"
    "length (mq_file_ids example_merge_request) = length (mq_tables example_merge_request)"
    "2 \<le> length (mq_file_ids example_merge_request)"
    by (simp_all add: example_merge_request_def)
  from output_location_policy
         [of example_world example_join_request alice ?fc ?tr empty_result
             example_merge_request id_a "[id_b]" ?fc ?tr empty_result]
       lj lm ex ne m
  obtain env1 env2 where
    j: "fst (join_files example_world example_join_request alice) = Returned env1"
       "jr_success (data env1)" "jr_error (data env1) = None"
       "jr_output_file_id (data env1) = Some (jq_left_file_id example_join_request)"
       "jr_output_sheet_name (data env1) = Some (jq_output_sheet_name example_join_request)"
       "jr_row_count (data env1) = Some 0" "jr_column_count (data env1) = Some 0"
    and g: "fst (merge_files example_world example_merge_request alice) = Returned env2"
       "mr_success (data env2)" "mr_error (data env2) = None"
       "mr_output_file_id (data env2) = Some id_a"
       "mr_output_sheet_name (data env2) = Some (mq_output_sheet_name example_merge_request)"
       "mr_row_count (data env2) = Some 0" "mr_column_count (data env2) = Some 0"
    by auto
  have c1: "code env1 = None \<and> msg env1 = None"
    using j(1) lj ex [of "[join_operation example_join_request]"] ne(1)
    by (auto simp: join_files_loaded join_response_def Let_def split: prod.splits)
  have c2: "code env2 = None \<and> msg env2 = None"
    using g(1) merge_files_loaded [OF m(2) m(3) lm ex] ne(1) m(1)
    by (auto simp: merge_response_def Let_def split: prod.splits)
  show ?thesis
    using j g c1 c2
    by (simp add: example_join_request_def example_merge_request_def)
qed

subsection \<open>Ownership\<close>

text \<open>
  C1. \<^verbatim>\<open>validate_files_access\<close> raises \<^verbatim>\<open>HTTPException(403)\<close> naming the first file that
  the caller does not own, before any table is loaded (lemma
  \<open>load_file_collection_forbidden\<close>). In \<^verbatim>\<open>join_files\<close> the call stands inside
  \<^verbatim>\<open>try ... except Exception\<close>, and \<^verbatim>\<open>HTTPException\<close> is an \<^verbatim>\<open>Exception\<close>: on the request
  below, whose right file belongs to \<open>bob\<close>, the endpoint raises nothing and returns an
  envelope with \<open>code = 500\<close> around a failed result. Only the database has been queried.
\<close>

theorem join_ownership_error_is_swallowed:
  "join_files example_world (example_join_request\<lparr>jq_right_file_id := id_d\<rparr>) alice
     = (Returned \<lparr>code = Some 500,
          data = \<lparr>jr_success = False, jr_output_file_id = None,
                   jr_output_sheet_name = None, jr_row_count = None,
                   jr_column_count = None,
                   jr_error = Some (str_exn example_world
                                      (HTTPException 403 (MSG_NO_ACCESS @ ''d.xlsx'')))\<rparr>,
          msg = Some MSG_JOIN_FAILED\<rparr>,
        [DbQuery [id_a, id_d]])"
proof -
  let ?req = "example_join_request\<lparr>jq_right_file_id := id_d\<rparr>"
  have p: "parse_uuids example_world [jq_left_file_id ?req, jq_right_file_id ?req]
             = Inr [id_a, id_d]"
    by (simp add: example_defs)
  have d: "get_files_by_ids_from_db example_world [id_a, id_d] = Inr ([file_a] @ file_d # [])"
    by (simp add: example_defs)
  have o: "\<forall>f\<in>set [file_a]. db_user_id f = alice" "db_user_id file_d \<noteq> alice"
    by (simp_all add: example_defs)
  have "load_file_collection example_world [jq_left_file_id ?req, jq_right_file_id ?req] alice
          = (Inl (HTTPException 403 (MSG_NO_ACCESS @ db_filename file_d)), [DbQuery [id_a, id_d]])"
    by (rule load_file_collection_forbidden [OF p d o])
  then show ?thesis
    by (simp add: join_files_def join_except_def file_d_def)
qed

subsection \<open>Malformed identifiers\<close>

text \<open>
  C2 as stated does not hold. \<^verbatim>\<open>merge_files\<close> checks the lengths of its two lists before it
  looks at any identifier: the request below has a first identifier that \<^verbatim>\<open>UUID\<close> rejects
  and lists of different lengths, and is answered by the returned length-mismatch result
  (the \<open>code\<close> of the envelope is a field of the body, not the HTTP status).
\<close>

theorem merge_validates_before_identifiers:
  "isl (UUID example_world ''not-a-uuid'')
   \<and> merge_files example_world
       \<lparr>mq_file_ids = [''not-a-uuid'', id_b, id_c], mq_tables = [''t1'', ''t2''],
        mq_merge_type = ''vertical'', mq_output_sheet_name = ''out''\<rparr> alice
     = (Returned \<lparr>code = Some 400,
          data = \<lparr>mr_success = False, mr_output_file_id = None,
                   mr_output_sheet_name = None, mr_row_count = None,
                   mr_column_count = None, mr_error = Some ERR_LENGTH_MISMATCH\<rparr>,
          msg = Some MSG_PARAM_ERROR\<rparr>, [])"
  by (simp add: merge_files_def merge_param_error_def example_world_def)

text \<open>
  C2, amended. When one of the file identifiers of a request is rejected by \<^verbatim>\<open>UUID\<close>,
  \<^verbatim>\<open>load_file_collection\<close> raises \<^verbatim>\<open>HTTPException(400)\<close> with the invalid-format text
  before any database query, ownership check, table loading or engine call. Each endpoint
  then ends with an empty list of events and without a success result: the analysis raises,
  and Join, Merge and CrossReference return no result that has \<open>success = True\<close>. Merge runs
  its length and minimum-count validation first and returns that failure when it applies.
\<close>

theorem malformed_identifier_stops_before_io:
  "((\<exists>fid\<in>set file_ids. isl (UUID w fid))
      \<longrightarrow> (\<exists>m. load_file_collection w file_ids user_id
                  = (Inl (HTTPException 400 (MSG_BAD_FILE_ID @ m)), [])))
   \<and> ((\<exists>fid\<in>set (aq_file_ids areq). isl (UUID w fid))
      \<longrightarrow> snd (analyze_multifile w areq user_id) = []
          \<and> (\<exists>e. fst (analyze_multifile w areq user_id) = Raised e))
   \<and> (isl (UUID w (jq_left_file_id jreq)) \<or> isl (UUID w (jq_right_file_id jreq))
      \<longrightarrow> snd (join_files w jreq user_id) = []
          \<and> (\<forall>env. fst (join_files w jreq user_id) = Returned env
                 \<longrightarrow> \<not> jr_success (data env)))
   \<and> (isl (UUID w (xq_source_file_id xreq)) \<or> isl (UUID w (xq_target_file_id xreq))
      \<longrightarrow> snd (cross_file_reference w xreq user_id) = []
          \<and> (\<forall>env. fst (cross_file_reference w xreq user_id) = Returned env
                 \<longrightarrow> \<not> xr_success (data env)))
   \<and> ((\<exists>fid\<in>set (mq_file_ids mreq). isl (UUID w fid))
      \<longrightarrow> snd (merge_files w mreq user_id) = []
          \<and> (\<forall>env. fst (merge_files w mreq user_id) = Returned env
                 \<longrightarrow> \<not> mr_success (data env))
          \<and> (length (mq_file_ids mreq) \<noteq> length (mq_tables mreq)
                \<longrightarrow> fst (merge_files w mreq user_id) = merge_param_error ERR_LENGTH_MISMATCH)
          \<and> (length (mq_file_ids mreq) = length (mq_tables mreq)
                \<and> length (mq_file_ids mreq) < 2
                \<longrightarrow> fst (merge_files w mreq user_id) = merge_param_error ERR_MIN_FILES))"
proof (intro conjI impI)
  assume "\<exists>fid\<in>set file_ids. isl (UUID w fid)"
  then show "\<exists>m. load_file_collection w file_ids user_id
                  = (Inl (HTTPException 400 (MSG_BAD_FILE_ID @ m)), [])"
    by (rule load_file_collection_malformed)
next
  assume a: "\<exists>fid\<in>set (aq_file_ids areq). isl (UUID w fid)"
  from load_file_collection_malformed [OF a, of user_id]
  show "snd (analyze_multifile w areq user_id) = []"
    and "\<exists>e. fst (analyze_multifile w areq user_id) = Raised e"
    by (auto simp: analyze_multifile_def)
next
  assume "isl (UUID w (jq_left_file_id jreq)) \<or> isl (UUID w (jq_right_file_id jreq))"
  then have a: "\<exists>fid\<in>set [jq_left_file_id jreq, jq_right_file_id jreq]. isl (UUID w fid)"
    by auto
  from load_file_collection_malformed [OF a, of user_id]
  show "snd (join_files w jreq user_id) = []"
    and "\<forall>env. fst (join_files w jreq user_id) = Returned env \<longrightarrow> \<not> jr_success (data env)"
    by (auto simp: join_files_def join_except_def)
next
  assume "isl (UUID w (xq_source_file_id xreq)) \<or> isl (UUID w (xq_target_file_id xreq))"
  then have a: "\<exists>fid\<in>set [xq_source_file_id xreq, xq_target_file_id xreq]. isl (UUID w fid)"
    by auto
  from load_file_collection_malformed [OF a, of user_id]
  show "snd (cross_file_reference w xreq user_id) = []"
    and "\<forall>env. fst (cross_file_reference w xreq user_id) = Returned env
           \<longrightarrow> \<not> xr_success (data env)"
    by (auto simp: cross_file_reference_def reference_except_def)
next
  assume a: "\<exists>fid\<in>set (mq_file_ids mreq). isl (UUID w fid)"
  from load_file_collection_malformed [OF a, of user_id]
  show "snd (merge_files w mreq user_id) = []"
    and "\<forall>env. fst (merge_files w mreq user_id) = Returned env \<longrightarrow> \<not> mr_success (data env)"
    by (auto simp: merge_files_def merge_except_def merge_param_error_def)
next
  assume "length (mq_file_ids mreq) \<noteq> length (mq_tables mreq)"
  then show "fst (merge_files w mreq user_id) = merge_param_error ERR_LENGTH_MISMATCH"
    by (simp add: merge_files_def)
next
  assume "length (mq_file_ids mreq) = length (mq_tables mreq) \<and> length (mq_file_ids mreq) < 2"
  then show "fst (merge_files w mreq user_id) = merge_param_error ERR_MIN_FILES"
    by (simp add: merge_files_def)
qed

theorem malformed_identifier_stops_before_io_witness:
  "load_file_collection example_world [id_a, ''not-a-uuid''] alice
     = (Inl (HTTPException 400 (MSG_BAD_FILE_ID @ ''badly formed hexadecimal UUID string'')), [])
   \<and> snd (analyze_multifile example_world
            \<lparr>aq_file_ids = [id_a, ''not-a-uuid''], aq_analysis_type = ''schema''\<rparr> alice) = []
   \<and> snd (join_files example_world
            (example_join_request\<lparr>jq_right_file_id := ''not-a-uuid''\<rparr>) alice) = []
   \<and> snd (cross_file_reference example_world
            (example_reference_request\<lparr>xq_source_file_id := ''not-a-uuid''\<rparr>) alice) = []
   \<and> snd (merge_files example_world
            (example_merge_request\<lparr>mq_file_ids := [id_a, ''not-a-uuid'']\<rparr>) alice) = []"
proof -
  have b: "isl (UUID example_world ''not-a-uuid'')"
    by (simp add: example_world_def)
  have g: "UUID example_world id_a = Inr id_a"
    by (simp add: example_world_def id_a_def)
  have l: "load_file_collection example_world [id_a, ''not-a-uuid''] alice
     = (Inl (HTTPException 400 (MSG_BAD_FILE_ID @ ''badly formed hexadecimal UUID string'')), [])"
    by (simp add: load_file_collection_def g) (simp add: example_world_def)
  show ?thesis
    using malformed_identifier_stops_before_io
            [of "[id_a, ''not-a-uuid'']" example_world alice
                "\<lparr>aq_file_ids = [id_a, ''not-a-uuid''], aq_analysis_type = ''schema''\<rparr>"
                "example_join_request\<lparr>jq_right_file_id := ''not-a-uuid''\<rparr>"
                "example_reference_request\<lparr>xq_source_file_id := ''not-a-uuid''\<rparr>"
                "example_merge_request\<lparr>mq_file_ids := [id_a, ''not-a-uuid'']\<rparr>"]
          b l
    by (simp add: example_join_request_def example_reference_request_def
                  example_merge_request_def)
qed

subsection \<open>Engine errors\<close>

text \<open>
  C7. When the files load and the engine's result has at least one error message, each of
  \<^verbatim>\<open>join_files\<close>, \<^verbatim>\<open>merge_files\<close> and \<^verbatim>\<open>cross_file_reference\<close> returns one envelope
  whose result has \<open>success = False\<close>, whose error text is the engine's messages joined
  with \<open>"; "\<close> in order, and whose other fields are all \<open>None\<close>.
\<close>

theorem engine_errors_become_one_failure:
  "(load_file_collection w [jq_left_file_id jreq, jq_right_file_id jreq] user_id = (Inr fc, tr)
      \<and> execute w fc [join_operation jreq] = Inr result \<and> has_errors result
    \<longrightarrow> fst (join_files w jreq user_id)
          = Returned \<lparr>code = Some 400,
              data = \<lparr>jr_success = False, jr_output_file_id = None,
                       jr_output_sheet_name = None, jr_row_count = None,
                       jr_column_count = None,
                       jr_error = Some (join ''; '' (errors result))\<rparr>,
              msg = Some MSG_JOIN_FAILED\<rparr>)
   \<and> (length (mq_file_ids mreq) = length (mq_tables mreq) \<and> 2 \<le> length (mq_file_ids mreq)
      \<and> load_file_collection w (mq_file_ids mreq) user_id = (Inr fc', tr')
      \<and> execute w fc' [merge_operation mreq] = Inr result' \<and> has_errors result'
    \<longrightarrow> fst (merge_files w mreq user_id)
          = Returned \<lparr>code = Some 400,
              data = \<lparr>mr_success = False, mr_output_file_id = None,
                       mr_output_sheet_name = None, mr_row_count = None,
                       mr_column_count = None,
                       mr_error = Some (join ''; '' (errors result'))\<rparr>,
              msg = Some MSG_MERGE_FAILED\<rparr>)
   \<and> (load_file_collection w [xq_source_file_id xreq, xq_target_file_id xreq] user_id
        = (Inr fc'', tr'')
      \<and> execute w fc'' [reference_operation xreq] = Inr result'' \<and> has_errors result''
    \<longrightarrow> fst (cross_file_reference w xreq user_id)
          = Returned \<lparr>code = Some 400,
              data = \<lparr>xr_success = False, xr_target_file_id = None,
                       xr_target_sheet_name = None, xr_target_column = None,
                       xr_formula = None,
                       xr_error = Some (join ''; '' (errors result''))\<rparr>,
              msg = Some MSG_REFERENCE_FAILED\<rparr>)"
proof (intro conjI impI)
  assume "load_file_collection w [jq_left_file_id jreq, jq_right_file_id jreq] user_id = (Inr fc, tr)
      \<and> execute w fc [join_operation jreq] = Inr result \<and> has_errors result"
  then show "fst (join_files w jreq user_id)
          = Returned \<lparr>code = Some 400,
              data = \<lparr>jr_success = False, jr_output_file_id = None,
                       jr_output_sheet_name = None, jr_row_count = None,
                       jr_column_count = None,
                       jr_error = Some (join ''; '' (errors result))\<rparr>,
              msg = Some MSG_JOIN_FAILED\<rparr>"
    by (simp add: join_files_loaded join_response_def)
next
  assume a: "length (mq_file_ids mreq) = length (mq_tables mreq) \<and> 2 \<le> length (mq_file_ids mreq)
      \<and> load_file_collection w (mq_file_ids mreq) user_id = (Inr fc', tr')
      \<and> execute w fc' [merge_operation mreq] = Inr result' \<and> has_errors result'"
  then have "merge_files w mreq user_id
       = (merge_response w mreq result', tr' @ [Execute fc' [merge_operation mreq]])"
    by (intro merge_files_loaded) blast+
  with a show "fst (merge_files w mreq user_id)
          = Returned \<lparr>code = Some 400,
              data = \<lparr>mr_success = False, mr_output_file_id = None,
                       mr_output_sheet_name = None, mr_row_count = None,
                       mr_column_count = None,
                       mr_error = Some (join ''; '' (errors result'))\<rparr>,
              msg = Some MSG_MERGE_FAILED\<rparr>"
    by (simp add: merge_response_def)
next
  assume "load_file_collection w [xq_source_file_id xreq, xq_target_file_id xreq] user_id
        = (Inr fc'', tr'')
      \<and> execute w fc'' [reference_operation xreq] = Inr result'' \<and> has_errors result''"
  then show "fst (cross_file_reference w xreq user_id)
          = Returned \<lparr>code = Some 400,
              data = \<lparr>xr_success = False, xr_target_file_id = None,
                       xr_target_sheet_name = None, xr_target_column = None,
                       xr_formula = None,
                       xr_error = Some (join ''; '' (errors result''))\<rparr>,
              msg = Some MSG_REFERENCE_FAILED\<rparr>"
    by (simp add: cross_file_reference_loaded reference_response_def)
qed

theorem engine_errors_become_one_failure_witness:
  "fst (join_files failing_world example_join_request alice)
     = Returned \<lparr>code = Some 400,
         data = \<lparr>jr_success = False, jr_output_file_id = None,
                  jr_output_sheet_name = None, jr_row_count = None,
                  jr_column_count = None,
                  jr_error = Some ''left table missing; right table missing''\<rparr>,
         msg = Some MSG_JOIN_FAILED\<rparr>
   \<and> fst (merge_files failing_world example_merge_request alice)
     = Returned \<lparr>code = Some 400,
         data = \<lparr>mr_success = False, mr_output_file_id = None,
                  mr_output_sheet_name = None, mr_row_count = None,
                  mr_column_count = None,
                  mr_error = Some ''left table missing; right table missing''\<rparr>,
         msg = Some MSG_MERGE_FAILED\<rparr>
   \<and> fst (cross_file_reference failing_world example_reference_request alice)
     = Returned \<lparr>code = Some 400,
         data = \<lparr>xr_success = False, xr_target_file_id = None,
                  xr_target_sheet_name = None, xr_target_column = None,
                  xr_formula = None,
                  xr_error = Some ''left table missing; right table missing''\<rparr>,
         msg = Some MSG_REFERENCE_FAILED\<rparr>"
proof -
  let ?fc = "[(id_a, excel_a), (id_b, excel_b)]"
  let ?tr = "[DbQuery [id_a, id_b], LoadTables [file_a, file_b]]"
  have lj: "load_file_collection failing_world
              [jq_left_file_id example_join_request, jq_right_file_id example_join_request] alice
            = (Inr ?fc, ?tr)"
    using load_failing_ab by (simp add: example_join_request_def)
  have lm: "load_file_collection failing_world (mq_file_ids example_merge_request) alice
            = (Inr ?fc, ?tr)"
    using load_failing_ab by (simp add: example_merge_request_def)
  have lx: "load_file_collection failing_world
              [xq_source_file_id example_reference_request,
               xq_target_file_id example_reference_request] alice
            = (Inr ?fc, ?tr)"
    using load_failing_ab by (simp add: example_reference_request_def)
  have ex: "execute failing_world ?fc ops = Inr failing_result" for ops
    by (simp add: failing_world_def)
  have he: "has_errors failing_result"
    by (simp add: has_errors_def failing_result_def)
  have m: "length (mq_file_ids example_merge_request) = length (mq_tables example_merge_request)"
    "2 \<le> length (mq_file_ids example_merge_request)"
    by (simp_all add: example_merge_request_def)
  have jn: "join ''; '' (errors failing_result) = ''left table missing; right table missing''"
    by (simp add: failing_result_def)
  show ?thesis
    using engine_errors_become_one_failure
            [of failing_world example_join_request alice ?fc ?tr failing_result
                example_merge_request ?fc ?tr failing_result
                example_reference_request ?fc ?tr failing_result]
          lj lm lx ex he m jn
    by simp
qed

subsection \<open>Join: the conditions list\<close>

text \<open>
  C8 as stated does not hold. The request below has an empty conditions list; the files load,
  and the engine is called with a Join operation that carries no condition.
\<close>

theorem join_without_conditions_reaches_engine:
  "jq_conditions (example_join_request\<lparr>jq_conditions := []\<rparr>) = []
   \<and> join_files example_world (example_join_request\<lparr>jq_conditions := []\<rparr>) alice
     = (Returned \<lparr>code = None,
          data = \<lparr>jr_success = True, jr_output_file_id = Some id_a,
                   jr_output_sheet_name = Some ''joined'', jr_row_count = Some 0,
                   jr_column_count = Some 0, jr_error = None\<rparr>,
          msg = None\<rparr>,
        [DbQuery [id_a, id_b], LoadTables [file_a, file_b],
         Execute [(id_a, excel_a), (id_b, excel_b)]
           [JoinOperation id_a ''People'' id_b ''Orders'' ''inner'' []
              (NewSheet ''joined'')
              (''inner'' @ DESC_JOIN @ id_a @ ''.People'' @ DESC_AND @ id_b @ ''.Orders'')]])"
proof -
  let ?req = "example_join_request\<lparr>jq_conditions := []\<rparr>"
  let ?fc = "[(id_a, excel_a), (id_b, excel_b)]"
  have l: "load_file_collection example_world [jq_left_file_id ?req, jq_right_file_id ?req] alice
            = (Inr ?fc, [DbQuery [id_a, id_b], LoadTables [file_a, file_b]])"
    using load_example_ab by (simp add: example_join_request_def)
  have e: "execute example_world ?fc [join_operation ?req] = Inr empty_result"
    by (simp add: example_world_def)
  have r: "join_response ?req empty_result
     = Returned \<lparr>code = None,
          data = \<lparr>jr_success = True, jr_output_file_id = Some id_a,
                   jr_output_sheet_name = Some ''joined'', jr_row_count = Some 0,
                   jr_column_count = Some 0, jr_error = None\<rparr>,
          msg = None\<rparr>"
    by (simp add: join_response_def has_errors_def empty_result_def result_counts_def
                  example_join_request_def)
  have o: "join_operation ?req
     = JoinOperation id_a ''People'' id_b ''Orders'' ''inner'' []
              (NewSheet ''joined'')
              (''inner'' @ DESC_JOIN @ id_a @ ''.People'' @ DESC_AND @ id_b @ ''.Orders'')"
    by (simp add: join_operation_def example_join_request_def)
  show ?thesis
    using join_files_loaded [OF l e] r o by (simp add: example_join_request_def)
qed

text \<open>
  C8, amended. \<^verbatim>\<open>join_files\<close> does not inspect the number of conditions: whenever the two
  files load, its last recorded call is one engine call with exactly one Join operation,
  whose conditions are the request's conditions, converted one by one and in order, so none
  when the request has none.
\<close>

theorem join_forwards_conditions_unchecked:
  assumes "load_file_collection w [jq_left_file_id request, jq_right_file_id request] user_id
             = (Inr fc, tr)"
  shows "\<exists>description.
           snd (join_files w request user_id)
             = tr @ [Execute fc
                      [JoinOperation
                         (jq_left_file_id request) (jq_left_table request)
                         (jq_right_file_id request) (jq_right_table request)
                         (jq_join_type request)
                         (map (\<lambda>cond. JoinCondition (jc_left_column cond)
                                        (jc_right_column cond) (jc_operator cond))
                              (jq_conditions request))
                         (NewSheet (jq_output_sheet_name request)) description]]"
  using assms by (simp add: join_files_events join_operation_def)

theorem join_forwards_conditions_unchecked_witness:
  "\<exists>description.
     snd (join_files example_world (example_join_request\<lparr>jq_conditions := []\<rparr>) alice)
       = [DbQuery [id_a, id_b], LoadTables [file_a, file_b],
          Execute [(id_a, excel_a), (id_b, excel_b)]
            [JoinOperation id_a ''People'' id_b ''Orders'' ''inner'' []
               (NewSheet ''joined'') description]]"
proof -
  let ?req = "example_join_request\<lparr>jq_conditions := []\<rparr>"
  have l: "load_file_collection example_world [jq_left_file_id ?req, jq_right_file_id ?req] alice
            = (Inr [(id_a, excel_a), (id_b, excel_b)],
               [DbQuery [id_a, id_b], LoadTables [file_a, file_b]])"
    using load_example_ab by (simp add: example_join_request_def)
  show ?thesis
    using join_forwards_conditions_unchecked [OF l]
    by (simp add: example_join_request_def)
qed

subsection \<open>Cross-file reference: the output of the operation\<close>

text \<open>
  C9 as stated does not hold. The request below gives the output sheet name \<open>""\<close>; the
  operation passed to the engine has output \<open>InPlace\<close>, not \<open>NewSheet ""\<close>.
\<close>

theorem empty_output_name_is_in_place:
  "xq_output_sheet_name (example_reference_request\<lparr>xq_output_sheet_name := Some ''''\<rparr>)
     = Some ''''
   \<and> snd (cross_file_reference example_world
            (example_reference_request\<lparr>xq_output_sheet_name := Some ''''\<rparr>) alice)
     = [DbQuery [id_a, id_b], LoadTables [file_a, file_b],
        Execute [(id_a, excel_a), (id_b, excel_b)]
          [CrossFileReferenceOperation id_a ''People'' ''name'' id_b ''Orders'' ''name''
             ''copy'' InPlace
             (DESC_FROM @ id_a @ ''.People'' @ DESC_REFER @ ''name'' @ DESC_TO @ id_b
                @ ''.Orders'')]]"
proof -
  let ?req = "example_reference_request\<lparr>xq_output_sheet_name := Some ''''\<rparr>"
  have l: "load_file_collection example_world
             [xq_source_file_id ?req, xq_target_file_id ?req] alice
            = (Inr [(id_a, excel_a), (id_b, excel_b)],
               [DbQuery [id_a, id_b], LoadTables [file_a, file_b]])"
    using load_example_ab by (simp add: example_reference_request_def)
  show ?thesis
    using l
    by (simp add: cross_file_reference_events reference_operation_def reference_output_def
                  example_reference_request_def)
qed

text \<open>
  C9, amended. Every engine call of \<^verbatim>\<open>cross_file_reference\<close> passes exactly one
  cross-reference operation; its output is \<open>InPlace\<close> when the request's output sheet name
  is \<open>None\<close> or the empty string, and \<open>NewSheet name\<close> with exactly the requested name when
  that name is not empty. No other output is built.
\<close>

theorem reference_output_variants:
  assumes "Execute fc ops \<in> set (snd (cross_file_reference w request user_id))"
  shows "\<exists>description.
           ops = [CrossFileReferenceOperation
                    (xq_source_file_id request) (xq_source_table request)
                    (xq_source_column request) (xq_target_file_id request)
                    (xq_target_table request) (xq_target_column request)
                    (xq_reference_type request)
                    (case xq_output_sheet_name request of
                       None \<Rightarrow> InPlace
                     | Some name \<Rightarrow> if name = [] then InPlace else NewSheet name)
                    description]"
proof -
  let ?l = "load_file_collection w [xq_source_file_id request, xq_target_file_id request] user_id"
  from assms have
    "Execute fc ops \<in> set (snd ?l)
     \<or> Execute fc ops \<in> set (case fst ?l of Inl e \<Rightarrow> []
                                | Inr fc \<Rightarrow> [Execute fc [reference_operation request]])"
    by (simp add: cross_file_reference_events)
  moreover have "Execute fc ops \<notin> set (snd ?l)"
    using load_file_collection_events [of "Execute fc ops"] by auto
  ultimately have "ops = [reference_operation request]"
    by (auto split: sum.splits)
  then show ?thesis
    by (simp add: reference_operation_def reference_output_def)
qed

theorem reference_output_variants_witness:
  "Execute [(id_a, excel_a), (id_b, excel_b)]
     [reference_operation (example_reference_request\<lparr>xq_output_sheet_name := Some ''copy_out''\<rparr>)]
     \<in> set (snd (cross_file_reference example_world
                  (example_reference_request\<lparr>xq_output_sheet_name := Some ''copy_out''\<rparr>) alice))
   \<and> xo_output (reference_operation
                  (example_reference_request\<lparr>xq_output_sheet_name := Some ''copy_out''\<rparr>))
       = NewSheet ''copy_out''"
proof -
  let ?req = "example_reference_request\<lparr>xq_output_sheet_name := Some ''copy_out''\<rparr>"
  have l: "load_file_collection example_world
             [xq_source_file_id ?req, xq_target_file_id ?req] alice
            = (Inr [(id_a, excel_a), (id_b, excel_b)],
               [DbQuery [id_a, id_b], LoadTables [file_a, file_b]])"
    using load_example_ab by (simp add: example_reference_request_def)
  then have m: "Execute [(id_a, excel_a), (id_b, excel_b)] [reference_operation ?req]
     \<in> set (snd (cross_file_reference example_world ?req alice))"
    by (simp add: cross_file_reference_events)
  from reference_output_variants [OF m]
  show ?thesis using m by (auto simp: example_reference_request_def)
qed

subsection \<open>The loops of the analysis\<close>

lemma col_loop_append:
  "col_loop cols fid1 sheet1 fid2 sheet2 rels
     = rels @ map (spec_relationship fid1 sheet1 fid2 sheet2) cols"
  by (induction cols arbitrary: rels) (simp_all add: spec_relationship_def)

lemma get_sheet_entry:
  assumes "distinct (map fst (xf_sheets file))" and "(sheet, t) \<in> set (xf_sheets file)"
  shows "get_sheet file sheet = Some t"
  using assms by (simp add: get_sheet_def)

lemma get_file_entry:
  assumes "distinct (map fst fc)" and "(fid, file) \<in> set fc"
  shows "get_file fc fid = Some file"
  using assms by (simp add: get_file_def)

lemma sheet2_loop_eq:
  assumes "distinct (map fst (xf_sheets file2))"
    and "set entries2 \<subseteq> set (xf_sheets file2)"
    and "get_sheet file1 sheet1 = Some table1"
  shows "sheet2_loop w file1 file2 fid1 fid2 sheet1 (map fst entries2) rels
           = Inr (rels @ concat (map (\<lambda>(sheet2, table2).
                     spec_sheet_pair w fid1 sheet1 table1 fid2 sheet2 table2) entries2))"
  using assms(2)
proof (induction entries2 arbitrary: rels)
  case Nil
  then show ?case by simp
next
  case (Cons entry rest)
  obtain sheet2 table2 where e: "entry = (sheet2, table2)" by (cases entry)
  with Cons.prems have "(sheet2, table2) \<in> set (xf_sheets file2)" by simp
  then have g: "get_sheet file2 sheet2 = Some table2"
    by (rule get_sheet_entry [OF assms(1)])
  from Cons.prems have "set rest \<subseteq> set (xf_sheets file2)" by simp
  note ih = Cons.IH [OF this]
  show ?case
    by (simp add: e g assms(3) ih col_loop_append spec_sheet_pair_def Let_def)
qed

lemma sheet1_loop_eq:
  assumes "distinct (map fst (xf_sheets file1))" and "distinct (map fst (xf_sheets file2))"
    and "set entries1 \<subseteq> set (xf_sheets file1)"
  shows "sheet1_loop w file1 file2 fid1 fid2 (map fst entries1) rels
           = Inr (rels @ concat (map (\<lambda>(sheet1, table1).
                     concat (map (\<lambda>(sheet2, table2).
                        spec_sheet_pair w fid1 sheet1 table1 fid2 sheet2 table2)
                        (xf_sheets file2))) entries1))"
  using assms(3)
proof (induction entries1 arbitrary: rels)
  case Nil
  then show ?case by simp
next
  case (Cons entry rest)
  obtain sheet1 table1 where e: "entry = (sheet1, table1)" by (cases entry)
  with Cons.prems have "(sheet1, table1) \<in> set (xf_sheets file1)" by simp
  then have g: "get_sheet file1 sheet1 = Some table1"
    by (rule get_sheet_entry [OF assms(1)])
  have s2: "sheet2_loop w file1 file2 fid1 fid2 sheet1 (get_sheet_names file2) rels
           = Inr (rels @ concat (map (\<lambda>(sheet2, table2).
                     spec_sheet_pair w fid1 sheet1 table1 fid2 sheet2 table2)
                     (xf_sheets file2)))" for rels
    unfolding get_sheet_names_def
    by (rule sheet2_loop_eq [OF assms(2) subset_refl g])
  from Cons.prems have "set rest \<subseteq> set (xf_sheets file1)" by simp
  note ih = Cons.IH [OF this]
  show ?case
    by (simp add: e s2 ih)
qed

lemma wf_collection_entry:
  assumes "wf_collection fc" and "(fid, file) \<in> set fc"
  shows "distinct (map fst (xf_sheets file))"
  using assms by (auto simp: wf_collection_def list_all_iff)

lemma inner_loop_eq:
  assumes "wf_collection fc" and "entry1 \<in> set fc" and "set entries2 \<subseteq> set fc"
  shows "inner_loop w fc (fst entry1) (map fst entries2) (rels, suggs)
           = Inr (rels @ concat (map (spec_file_pair w entry1) entries2),
                  suggs @ map (\<lambda>entry2. suggestion (xf_filename (snd entry1))
                                          (xf_filename (snd entry2))) entries2)"
  using assms(3)
proof (induction entries2 arbitrary: rels suggs)
  case Nil
  then show ?case by simp
next
  case (Cons entry2 rest)
  let ?fid1 = "fst entry1" and ?file1 = "snd entry1"
  let ?fid2 = "fst entry2" and ?file2 = "snd entry2"
  from assms(1) have d: "distinct (map fst fc)" by (simp add: wf_collection_def)
  from assms(2) have m1: "(?fid1, ?file1) \<in> set fc" by simp
  from Cons.prems have m2: "(?fid2, ?file2) \<in> set fc" by simp
  have g1: "get_file fc ?fid1 = Some ?file1" by (rule get_file_entry [OF d m1])
  have g2: "get_file fc ?fid2 = Some ?file2" by (rule get_file_entry [OF d m2])
  have s1: "sheet1_loop w ?file1 ?file2 ?fid1 ?fid2 (get_sheet_names ?file1) rels
              = Inr (rels @ spec_file_pair w entry1 entry2)"
    unfolding get_sheet_names_def spec_file_pair_def
    by (rule sheet1_loop_eq [OF wf_collection_entry [OF assms(1) m1]
                               wf_collection_entry [OF assms(1) m2] subset_refl])
  from Cons.prems have "set rest \<subseteq> set fc" by simp
  note ih = Cons.IH [OF this]
  show ?case
    by (simp add: g1 g2 s1 ih)
qed

lemma outer_loop_eq:
  assumes "wf_collection fc" and "fc = before @ entries"
  shows "outer_loop w fc (map fst fc) (enumerate (length before) (map fst entries)) (rels, suggs)
           = Inr (rels @ concat (map (\<lambda>(entry1, entry2). spec_file_pair w entry1 entry2)
                                  (pairs entries)),
                  suggs @ map (\<lambda>(entry1, entry2).
                                 suggestion (xf_filename (snd entry1)) (xf_filename (snd entry2)))
                            (pairs entries))"
  using assms(2)
proof (induction entries arbitrary: before rels suggs)
  case Nil
  then show ?case by simp
next
  case (Cons entry1 rest)
  have d: "drop (Suc (length before)) (map fst fc) = map fst rest"
    using Cons.prems by (simp add: drop_map)
  have m: "entry1 \<in> set fc" and s: "set rest \<subseteq> set fc"
    using Cons.prems by auto
  have "fc = (before @ [entry1]) @ rest" using Cons.prems by simp
  note ih = Cons.IH [OF this]
  show ?case
    using ih by (simp add: d inner_loop_eq [OF assms(1) m s] comp_def)
qed

lemma schemas_loop_eq:
  assumes "distinct (map fst fc)" and "set entries \<subseteq> set fc"
  shows "schemas_loop fc (map (\<lambda>(fid, file). (fid, xf_sheets file)) entries) acc
           = Inr (acc @ map (\<lambda>(fid, file).
                     \<lparr>file_id = fid, filename = xf_filename file,
                      sheets = sheet_columns (xf_sheets file)\<rparr>) entries)"
  using assms(2)
proof (induction entries arbitrary: acc)
  case Nil
  then show ?case by simp
next
  case (Cons entry rest)
  obtain fid f where e: "entry = (fid, f)" by (cases entry)
  with Cons.prems have "(fid, f) \<in> set fc" by simp
  then have g: "get_file fc fid = Some f" by (rule get_file_entry [OF assms(1)])
  from Cons.prems have "set rest \<subseteq> set fc" by simp
  note ih = Cons.IH [OF this]
  show ?case by (simp add: e g ih)
qed

lemma analyze_collection_eq:
  assumes "wf_collection fc"
  shows "analyze_collection w fc
           = Inr \<lparr>file_schemas =
                    map (\<lambda>(fid, file). \<lparr>file_id = fid, filename = xf_filename file,
                                         sheets = sheet_columns (xf_sheets file)\<rparr>) fc,
                  relationships = spec_relationships w fc,
                  suggestions =
                    (if spec_relationships w fc = [] then spec_suggestions fc @ [SUGGEST_FALLBACK]
                     else spec_suggestions fc)\<rparr>"
proof -
  from assms have d: "distinct (map fst fc)" by (simp add: wf_collection_def)
  have ids: "map fst (get_schemas fc) = map fst fc"
    by (simp add: get_schemas_def comp_def case_prod_beta)
  have sl: "schemas_loop fc (get_schemas fc) []
           = Inr (map (\<lambda>(fid, file). \<lparr>file_id = fid, filename = xf_filename file,
                                         sheets = sheet_columns (xf_sheets file)\<rparr>) fc)"
    unfolding get_schemas_def using schemas_loop_eq [OF d subset_refl, of "[]"] by simp
  have ol: "outer_loop w fc (map fst fc) (enumerate 0 (map fst fc)) ([], [])
           = Inr (spec_relationships w fc, spec_suggestions fc)"
    using outer_loop_eq [OF assms, of "[]" fc w "[]" "[]"]
    by (simp add: spec_relationships_def spec_suggestions_def)
  show ?thesis
    by (simp add: analyze_collection_def Let_def ids sl ol)
qed

subsection \<open>Pairs and counts\<close>

lemma pairs_by_index:
  "pairs xs = concat (map (\<lambda>i. map (\<lambda>j. (xs ! i, xs ! j)) [Suc i..<length xs]) [0..<length xs])"
proof (induction xs)
  case Nil
  then show ?case by simp
next
  case (Cons x xs)
  have h: "map (\<lambda>j. (x, (x # xs) ! j)) [Suc 0..<Suc (length xs)] = map (Pair x) xs"
  proof -
    have "map (\<lambda>j. (x, (x # xs) ! j)) [Suc 0..<Suc (length xs)]
            = map (\<lambda>j. (x, xs ! j)) [0..<length xs]"
      by (simp add: map_Suc_upt [symmetric] del: upt_Suc)
    also have "\<dots> = map (Pair x) (map (\<lambda>j. xs ! j) [0..<length xs])"
      by (simp add: comp_def)
    finally show ?thesis by (simp add: map_nth)
  qed
  have t: "map (\<lambda>j. ((x # xs) ! Suc i, (x # xs) ! j)) [Suc (Suc i)..<Suc (length xs)]
             = map (\<lambda>j. (xs ! i, xs ! j)) [Suc i..<length xs]" for i
    by (simp add: map_Suc_upt [symmetric] del: upt_Suc)
  have "concat (map (\<lambda>i. map (\<lambda>j. ((x # xs) ! i, (x # xs) ! j)) [Suc i..<length (x # xs)])
                  [0..<length (x # xs)])
          = map (\<lambda>j. (x, (x # xs) ! j)) [Suc 0..<Suc (length xs)]
            @ concat (map (\<lambda>i. map (\<lambda>j. ((x # xs) ! Suc i, (x # xs) ! j))
                                  [Suc (Suc i)..<Suc (length xs)]) [0..<length xs])"
    by (simp add: upt_conv_Cons map_Suc_upt [symmetric] comp_def del: upt_Suc)
  also have "\<dots> = map (Pair x) xs @ pairs xs"
    by (simp only: h t Cons.IH)
  finally show ?case by simp
qed

lemma length_pairs: "length (pairs xs) = length xs * (length xs - 1) div 2"
proof (induction xs)
  case Nil
  then show ?case by simp
next
  case (Cons x xs)
  have "2 * length xs + length xs * (length xs - 1) = Suc (length xs) * length xs"
    by (cases "length xs") simp_all
  then have "length xs + length xs * (length xs - 1) div 2 = Suc (length xs) * length xs div 2"
    by (metis div_mult_self4 zero_neq_numeral)
  with Cons show ?case by simp
qed

lemma pairs_short: "length xs \<le> 1 \<Longrightarrow> pairs xs = []"
  by (cases xs) auto

lemma pairs_indices:
  assumes "(a, b) \<in> set (pairs xs)"
  shows "\<exists>i j. i < j \<and> j < length xs \<and> xs ! i = a \<and> xs ! j = b"
  using assms by (force simp: pairs_by_index Suc_le_eq)

lemma suggestion_not_fallback: "suggestion name1 name2 \<noteq> SUGGEST_FALLBACK"
  by (simp add: suggestion_def SUGGEST_HEAD_def SUGGEST_FALLBACK_def)

lemma fallback_not_per_pair: "SUGGEST_FALLBACK \<notin> set (spec_suggestions fc)"
  using suggestion_not_fallback [THEN not_sym] by (auto simp: spec_suggestions_def)

lemma length_spec_sheet_pair:
  assumes "enumerates (set_iter w)"
  shows "length (spec_sheet_pair w fid1 sheet1 table1 fid2 sheet2 table2)
           = shared_columns table1 table2"
proof -
  let ?S = "set (get_columns table1) \<inter> set (get_columns table2)"
  have "finite ?S" by simp
  with assms have "set (set_iter w ?S) = ?S" and "distinct (set_iter w ?S)"
    by (simp_all add: enumerates_def)
  then have "card ?S = length (set_iter w ?S)"
    using distinct_card by metis
  then show ?thesis by (simp add: spec_sheet_pair_def shared_columns_def)
qed

lemma length_spec_relationships:
  assumes "enumerates (set_iter w)"
  shows "length (spec_relationships w fc)
           = (\<Sum>(entry1, entry2)\<leftarrow>pairs fc.
                \<Sum>(sheet1, table1)\<leftarrow>xf_sheets (snd entry1).
                  \<Sum>(sheet2, table2)\<leftarrow>xf_sheets (snd entry2). shared_columns table1 table2)"
  unfolding spec_relationships_def spec_file_pair_def split_def
  by (simp add: length_concat comp_def length_spec_sheet_pair [OF assms])

lemma enumerates_sorted_list_of_set: "enumerates sorted_list_of_set"
  by (simp add: enumerates_def)

lemma spec_relationships_member:
  assumes "r \<in> set (spec_relationships w fc)"
  shows "\<exists>entry1 entry2 sheet1 sheet2 col.
           (entry1, entry2) \<in> set (pairs fc)
           \<and> r = spec_relationship (fst entry1) sheet1 (fst entry2) sheet2 col"
  using assms
  by (auto simp: spec_relationships_def spec_file_pair_def spec_sheet_pair_def) blast

lemma wf_example_collection: "wf_collection example_collection"
  by (simp add: wf_collection_def example_defs)

lemma wf_unrelated_files: "wf_collection unrelated_files"
  by (simp add: wf_collection_def example_defs unrelated_files_def)

lemma wf_single_file: "wf_collection [(id_a, excel_a)]"
  by (simp add: wf_collection_def excel_a_def)

lemma enumerates_example_world: "enumerates (set_iter example_world)"
  by (simp add: example_world_def enumerates_sorted_list_of_set)

subsection \<open>Analysis: relationships\<close>

lemma analyze_multifile_loaded:
  assumes "load_file_collection w (aq_file_ids request) user_id = (Inr fc, tr)"
    and "analyze_collection w fc = Inr result"
  shows "analyze_multifile w request user_id
           = (Returned \<lparr>code = None, data = result, msg = None\<rparr>, tr)"
  using assms by (simp add: analyze_multifile_def)

lemma load_example_abc:
  "load_file_collection example_world [id_a, id_b, id_c] alice
     = (Inr example_collection,
        [DbQuery [id_a, id_b, id_c], LoadTables [file_a, file_b, file_c]])"
  by (simp add: load_file_collection_def validate_files_access_def example_defs)

lemma load_example_ac:
  "load_file_collection example_world [id_a, id_c] alice
     = (Inr unrelated_files, [DbQuery [id_a, id_c], LoadTables [file_a, file_c]])"
  by (simp add: load_file_collection_def validate_files_access_def example_defs
                unrelated_files_def)

lemma load_example_a:
  "load_file_collection example_world [id_a] alice
     = (Inr [(id_a, excel_a)], [DbQuery [id_a], LoadTables [file_a]])"
  by (simp add: load_file_collection_def validate_files_access_def example_defs)

text \<open>
  C4. When the collection loads (its keys distinct, as those of a dictionary are, and the
  loop over a set visiting each element once), the analysis returns, and its relationships
  are those of the specification's comprehension: for every pair of distinct files in
  iteration order, for every sheet of the first and every sheet of the second, one record
  per column name of the intersection. Nothing is removed afterwards, so the number of
  records is the sum, over the file pairs and the full cross product of their sheets, of the
  number of shared column names: one shared name in a sheet pair gives one record, two give
  two, and a name shared again in another sheet pair gives a further record.
\<close>

theorem relationships_per_shared_column:
  assumes "load_file_collection w (aq_file_ids request) user_id = (Inr fc, tr)"
    and "wf_collection fc" and "enumerates (set_iter w)"
  shows "\<exists>result. analyze_multifile w request user_id
                     = (Returned \<lparr>code = None, data = result, msg = None\<rparr>, tr)
           \<and> relationships result = spec_relationships w fc
           \<and> length (relationships result)
               = (\<Sum>(entry1, entry2)\<leftarrow>pairs fc.
                    \<Sum>(sheet1, table1)\<leftarrow>xf_sheets (snd entry1).
                      \<Sum>(sheet2, table2)\<leftarrow>xf_sheets (snd entry2).
                        shared_columns table1 table2)"
  using analyze_multifile_loaded [OF assms(1) analyze_collection_eq [OF assms(2), of w]]
        length_spec_relationships [OF assms(3), of fc]
  by simp

theorem relationships_per_shared_column_witness:
  "\<exists>result. analyze_multifile example_world example_analysis_request alice
               = (Returned \<lparr>code = None, data = result, msg = None\<rparr>,
                  [DbQuery [id_a, id_b, id_c], LoadTables [file_a, file_b, file_c]])
     \<and> relationships result
         = [spec_relationship id_a ''People'' id_b ''Orders'' ''id'',
            spec_relationship id_a ''People'' id_b ''Orders'' ''name'']
     \<and> length (relationships result) = 2"
proof -
  have l: "load_file_collection example_world (aq_file_ids example_analysis_request) alice
             = (Inr example_collection,
                [DbQuery [id_a, id_b, id_c], LoadTables [file_a, file_b, file_c]])"
    using load_example_abc by (simp add: example_analysis_request_def)
  have s: "spec_relationships example_world example_collection
         = [spec_relationship id_a ''People'' id_b ''Orders'' ''id'',
            spec_relationship id_a ''People'' id_b ''Orders'' ''name'']"
    by code_simp
  have n: "(\<Sum>(entry1, entry2)\<leftarrow>pairs example_collection.
              \<Sum>(sheet1, table1)\<leftarrow>xf_sheets (snd entry1).
                \<Sum>(sheet2, table2)\<leftarrow>xf_sheets (snd entry2).
                  shared_columns table1 table2) = 2"
    by code_simp
  show ?thesis
    using relationships_per_shared_column
            [OF l wf_example_collection enumerates_example_world] s n
    by simp
qed

subsection \<open>Analysis: suggestions\<close>

text \<open>
  C5. When the collection loads, the analysis returns, and its suggestions are: one per-pair
  suggestion for every pair of positions \<open>i < j\<close> of the loaded files, in iteration order
  and whatever the columns of the two files, followed by the fallback text exactly when the
  relationships are empty. So there are \<open>n (n - 1) / 2\<close> per-pair suggestions for \<open>n\<close> files, the
  fallback text occurs once when the relationships are empty and not at all otherwise, and
  for no file or one file the relationships are empty and the suggestions are the fallback
  text alone.
\<close>

theorem suggestions_per_pair_and_fallback:
  assumes "load_file_collection w (aq_file_ids request) user_id = (Inr fc, tr)"
    and "wf_collection fc"
  shows "\<exists>result. analyze_multifile w request user_id
                     = (Returned \<lparr>code = None, data = result, msg = None\<rparr>, tr)
           \<and> suggestions result
               = concat (map (\<lambda>i. map (\<lambda>j. suggestion (xf_filename (snd (fc ! i)))
                                                        (xf_filename (snd (fc ! j))))
                                        [Suc i..<length fc]) [0..<length fc])
                 @ (if relationships result = [] then [SUGGEST_FALLBACK] else [])
           \<and> length (suggestions result)
               = length fc * (length fc - 1) div 2
                 + (if relationships result = [] then 1 else 0)
           \<and> count_list (suggestions result) SUGGEST_FALLBACK
               = (if relationships result = [] then 1 else 0)
           \<and> (length fc \<le> 1
                \<longrightarrow> relationships result = [] \<and> suggestions result = [SUGGEST_FALLBACK])"
proof -
  let ?per_pair = "concat (map (\<lambda>i. map (\<lambda>j. suggestion (xf_filename (snd (fc ! i)))
                                                        (xf_filename (snd (fc ! j))))
                                        [Suc i..<length fc]) [0..<length fc])"
  have p: "spec_suggestions fc = ?per_pair"
    by (simp add: spec_suggestions_def pairs_by_index map_concat comp_def)
  have l: "length (spec_suggestions fc) = length fc * (length fc - 1) div 2"
    by (simp add: spec_suggestions_def length_pairs)
  have c: "count_list (spec_suggestions fc) SUGGEST_FALLBACK = 0"
    using fallback_not_per_pair by (simp add: count_list_0_iff)
  have e: "length fc \<le> 1 \<Longrightarrow> spec_relationships w fc = [] \<and> spec_suggestions fc = []"
    by (simp add: spec_relationships_def spec_suggestions_def pairs_short)
  show ?thesis
    using analyze_multifile_loaded [OF assms(1) analyze_collection_eq [OF assms(2), of w]] l c e
    by (auto simp: p [symmetric])
qed

theorem suggestions_per_pair_and_fallback_witness:
  "(\<exists>result. fst (analyze_multifile example_world
                    (example_analysis_request\<lparr>aq_file_ids := [id_a, id_c]\<rparr>) alice)
               = Returned \<lparr>code = None, data = result, msg = None\<rparr>
      \<and> relationships result = []
      \<and> suggestions result = [suggestion ''a.xlsx'' ''c.xlsx'', SUGGEST_FALLBACK])
   \<and> (\<exists>result. fst (analyze_multifile example_world example_analysis_request alice)
               = Returned \<lparr>code = None, data = result, msg = None\<rparr>
      \<and> suggestions result
          = [suggestion ''a.xlsx'' ''b.xlsx'', suggestion ''a.xlsx'' ''c.xlsx'',
             suggestion ''b.xlsx'' ''c.xlsx''])
   \<and> (\<exists>result. fst (analyze_multifile example_world
                    (example_analysis_request\<lparr>aq_file_ids := [id_a]\<rparr>) alice)
               = Returned \<lparr>code = None, data = result, msg = None\<rparr>
      \<and> relationships result = [] \<and> suggestions result = [SUGGEST_FALLBACK])"
proof -
  let ?req_ac = "example_analysis_request\<lparr>aq_file_ids := [id_a, id_c]\<rparr>"
  let ?req_a = "example_analysis_request\<lparr>aq_file_ids := [id_a]\<rparr>"
  have labc: "load_file_collection example_world (aq_file_ids example_analysis_request) alice
             = (Inr example_collection,
                [DbQuery [id_a, id_b, id_c], LoadTables [file_a, file_b, file_c]])"
    using load_example_abc by (simp add: example_analysis_request_def)
  have lac: "load_file_collection example_world (aq_file_ids ?req_ac) alice
             = (Inr unrelated_files, [DbQuery [id_a, id_c], LoadTables [file_a, file_c]])"
    using load_example_ac by simp
  have la: "load_file_collection example_world (aq_file_ids ?req_a) alice
             = (Inr [(id_a, excel_a)], [DbQuery [id_a], LoadTables [file_a]])"
    using load_example_a by simp
  have u: "spec_relationships example_world unrelated_files = []"
    by code_simp
  have e: "spec_relationships example_world example_collection \<noteq> []"
    by code_simp
  have ru: "relationships result = []"
    if "fst (analyze_multifile example_world ?req_ac alice)
          = Returned \<lparr>code = None, data = result, msg = None\<rparr>" for result
    using that u
          analyze_multifile_loaded [OF lac analyze_collection_eq [OF wf_unrelated_files]]
    by auto
  have re: "relationships result \<noteq> []"
    if "fst (analyze_multifile example_world example_analysis_request alice)
          = Returned \<lparr>code = None, data = result, msg = None\<rparr>" for result
    using that e
          analyze_multifile_loaded [OF labc analyze_collection_eq [OF wf_example_collection]]
    by auto
  have n: "[0..<2] = [0, 1]" "[0..<3] = [0, 1, 2]" "[Suc 0..<3] = [1, 2]"
    by (simp_all add: upt_conv_Cons)
  from suggestions_per_pair_and_fallback [OF lac wf_unrelated_files] ru
  have 1: "\<exists>result. fst (analyze_multifile example_world ?req_ac alice)
               = Returned \<lparr>code = None, data = result, msg = None\<rparr>
      \<and> relationships result = []
      \<and> suggestions result = [suggestion ''a.xlsx'' ''c.xlsx'', SUGGEST_FALLBACK]"
    by (auto simp: unrelated_files_def excel_a_def excel_c_def n)
  from suggestions_per_pair_and_fallback [OF labc wf_example_collection] re
  have 2: "\<exists>result. fst (analyze_multifile example_world example_analysis_request alice)
               = Returned \<lparr>code = None, data = result, msg = None\<rparr>
      \<and> suggestions result
          = [suggestion ''a.xlsx'' ''b.xlsx'', suggestion ''a.xlsx'' ''c.xlsx'',
             suggestion ''b.xlsx'' ''c.xlsx'']"
    by (auto simp: example_collection_def excel_a_def excel_b_def excel_c_def n
                   numeral_3_eq_3)
  from suggestions_per_pair_and_fallback [OF la wf_single_file]
  have 3: "\<exists>result. fst (analyze_multifile example_world ?req_a alice)
               = Returned \<lparr>code = None, data = result, msg = None\<rparr>
      \<and> relationships result = [] \<and> suggestions result = [SUGGEST_FALLBACK]"
    by auto
  from 1 2 3 show ?thesis by blast
qed

subsection \<open>Analysis: the invariant of a relationship record\<close>

text \<open>
  C10. When the collection loads, every relationship record of the analysis has equal source
  and target column names and the type \<open>"potential_join"\<close>; its source and target file ids
  differ, and the source file stands at a strictly earlier position of the schema mapping
  than the target file. No record relates a file to itself, and no record is the reverse of
  another's file pair.
\<close>

theorem relationship_invariant:
  assumes "load_file_collection w (aq_file_ids request) user_id = (Inr fc, tr)"
    and "wf_collection fc"
  shows "\<exists>result. analyze_multifile w request user_id
                     = (Returned \<lparr>code = None, data = result, msg = None\<rparr>, tr)
           \<and> (\<forall>r\<in>set (relationships result).
                 source_column r = target_column r
                 \<and> relationship_type r = ''potential_join''
                 \<and> source_file r \<noteq> target_file r
                 \<and> (\<exists>i j. i < j \<and> j < length (get_schemas fc)
                       \<and> fst (get_schemas fc ! i) = source_file r
                       \<and> fst (get_schemas fc ! j) = target_file r)
                 \<and> (\<forall>r'\<in>set (relationships result).
                       \<not> (source_file r' = target_file r \<and> target_file r' = source_file r)))"
proof -
  from assms(2) have d: "distinct (map fst fc)" by (simp add: wf_collection_def)
  have ix: "\<exists>i j. i < j \<and> j < length fc \<and> fst (fc ! i) = source_file r
              \<and> fst (fc ! j) = target_file r
              \<and> source_column r = target_column r
              \<and> relationship_type r = ''potential_join''"
    if "r \<in> set (spec_relationships w fc)" for r
  proof -
    from spec_relationships_member [OF that] obtain entry1 entry2 sheet1 sheet2 col
      where m: "(entry1, entry2) \<in> set (pairs fc)"
        and r: "r = spec_relationship (fst entry1) sheet1 (fst entry2) sheet2 col"
      by blast
    from pairs_indices [OF m] obtain i j
      where "i < j" "j < length fc" "fc ! i = entry1" "fc ! j = entry2" by blast
    with r show ?thesis by (auto simp: spec_relationship_def)
  qed
  have uniq: "i = j" if "i < length fc" "j < length fc" "fst (fc ! i) = fst (fc ! j)" for i j
    using that d nth_eq_iff_index_eq [of "map fst fc" i j] by simp
  have inv: "source_column r = target_column r
                 \<and> relationship_type r = ''potential_join''
                 \<and> source_file r \<noteq> target_file r
                 \<and> (\<exists>i j. i < j \<and> j < length (get_schemas fc)
                       \<and> fst (get_schemas fc ! i) = source_file r
                       \<and> fst (get_schemas fc ! j) = target_file r)
                 \<and> (\<forall>r'\<in>set (spec_relationships w fc).
                       \<not> (source_file r' = target_file r \<and> target_file r' = source_file r))"
    if "r \<in> set (spec_relationships w fc)" for r
  proof -
    from ix [OF that] obtain i j where ij: "i < j" "j < length fc"
      "fst (fc ! i) = source_file r" "fst (fc ! j) = target_file r"
      and f: "source_column r = target_column r" "relationship_type r = ''potential_join''"
      by blast
    have ne: "source_file r \<noteq> target_file r"
      using uniq [of i j] ij by auto
    have sch: "fst (get_schemas fc ! k) = fst (fc ! k)" if "k < length fc" for k
      using that by (simp add: get_schemas_def case_prod_beta)
    have pos: "\<exists>i j. i < j \<and> j < length (get_schemas fc)
                       \<and> fst (get_schemas fc ! i) = source_file r
                       \<and> fst (get_schemas fc ! j) = target_file r"
      using ij sch [of i] sch [of j]
      by (intro exI [of _ i] exI [of _ j]) (simp add: get_schemas_def)
    have rev: "\<not> (source_file r' = target_file r \<and> target_file r' = source_file r)"
      if "r' \<in> set (spec_relationships w fc)" for r'
    proof
      assume a: "source_file r' = target_file r \<and> target_file r' = source_file r"
      from ix [OF that] obtain i' j' where ij': "i' < j'" "j' < length fc"
        "fst (fc ! i') = source_file r'" "fst (fc ! j') = target_file r'"
        by blast
      have "i' = j" using uniq [of i' j] ij ij' a by simp
      moreover have "j' = i" using uniq [of j' i] ij ij' a by simp
      ultimately show False using ij(1) ij'(1) by simp
    qed
    from f ne pos rev show ?thesis by blast
  qed
  show ?thesis
    using analyze_multifile_loaded [OF assms(1) analyze_collection_eq [OF assms(2), of w]] inv
    by simp
qed

theorem relationship_invariant_witness:
  "\<exists>result r. fst (analyze_multifile example_world example_analysis_request alice)
                 = Returned \<lparr>code = None, data = result, msg = None\<rparr>
     \<and> r \<in> set (relationships result)
     \<and> source_file r = id_a \<and> target_file r = id_b
     \<and> source_column r = ''id'' \<and> target_column r = ''id''
     \<and> relationship_type r = ''potential_join''
     \<and> source_file r \<noteq> target_file r"
proof -
  let ?r = "spec_relationship id_a ''People'' id_b ''Orders'' ''id''"
  have l: "load_file_collection example_world (aq_file_ids example_analysis_request) alice
             = (Inr example_collection,
                [DbQuery [id_a, id_b, id_c], LoadTables [file_a, file_b, file_c]])"
    using load_example_abc by (simp add: example_analysis_request_def)
  have s: "spec_relationships example_world example_collection
         = [?r, spec_relationship id_a ''People'' id_b ''Orders'' ''name'']"
    by code_simp
  from relationship_invariant [OF l wf_example_collection]
  obtain result where
    a: "analyze_multifile example_world example_analysis_request alice
          = (Returned \<lparr>code = None, data = result, msg = None\<rparr>,
             [DbQuery [id_a, id_b, id_c], LoadTables [file_a, file_b, file_c]])"
    and i: "\<forall>r\<in>set (relationships result).
                 source_column r = target_column r
                 \<and> relationship_type r = ''potential_join''
                 \<and> source_file r \<noteq> target_file r"
    by blast
  from a s have m: "?r \<in> set (relationships result)"
    using analyze_multifile_loaded [OF l analyze_collection_eq [OF wf_example_collection]]
    by auto
  from i m have "source_column ?r = target_column ?r
                 \<and> relationship_type ?r = ''potential_join''
                 \<and> source_file ?r \<noteq> target_file ?r"
    by blast
  with a m show ?thesis
    by (intro exI [of _ result] exI [of _ ?r]) (simp add: spec_relationship_def)
qed

end
